theory Spec2Isabelle
  imports Main "HOL-Library.Product_Lexorder"
begin

section \<open>SQL values\<close>

text \<open>
  Timestamps (\<open>TIMESTAMPTZ\<close>) are seconds since 1970-01-01 00:00 in the session time
  zone, dates (\<open>DATE\<close>) are days since then, times of day (\<open>TIME\<close>) are seconds since
  midnight. A nullable column or PL/pgSQL variable is an \<open>option\<close>, \<open>None\<close> being
  \<open>NULL\<close>. A \<open>SELECT ... INTO v\<close> that finds no row assigns \<open>NULL\<close> to \<open>v\<close>, whatever
  the variable was initialised with.
\<close>

type_synonym timestamptz = int
type_synonym date = int
type_synonym time_of_day = int

definition date_of :: "timestamptz \<Rightarrow> date" where
  "date_of t = t div 86400"

definition time_of :: "timestamptz \<Rightarrow> time_of_day" where
  "time_of t = t mod 86400"

definition add_hours :: "timestamptz \<Rightarrow> int \<Rightarrow> timestamptz" where
  "add_hours t h = t + h * 3600"

text \<open>\<open>trim(lower(to_char(t, 'Day')))\<close>; day 0 (1970-01-01) was a Thursday.\<close>

definition day_name :: "date \<Rightarrow> string" where
  "day_name d =
     [''thursday'', ''friday'', ''saturday'', ''sunday'', ''monday'', ''tuesday'', ''wednesday'']
       ! nat (d mod 7)"

text \<open>Three-valued logic: a condition is \<open>Some True\<close>, \<open>Some False\<close> or \<open>NULL\<close>.\<close>

definition sql_not :: "bool option \<Rightarrow> bool option" where
  "sql_not a = map_option Not a"

definition sql_or :: "bool option \<Rightarrow> bool option \<Rightarrow> bool option" where
  "sql_or a b =
     (if a = Some True \<or> b = Some True then Some True
      else if a = Some False \<and> b = Some False then Some False
      else None)"

definition sql_lt :: "int option \<Rightarrow> int option \<Rightarrow> bool option" where
  "sql_lt a b = (case (a, b) of (Some x, Some y) \<Rightarrow> Some (x < y) | _ \<Rightarrow> None)"

definition sql_gt :: "int option \<Rightarrow> int option \<Rightarrow> bool option" where
  "sql_gt a b = sql_lt b a"

definition sql_ge :: "int option \<Rightarrow> int option \<Rightarrow> bool option" where
  "sql_ge a b = (case (a, b) of (Some x, Some y) \<Rightarrow> Some (y \<le> x) | _ \<Rightarrow> None)"

text \<open>\<open>IF c THEN\<close> takes the branch only when \<open>c\<close> is true; \<open>NULL\<close> falls through.\<close>

definition sql_true :: "bool option \<Rightarrow> bool" where
  "sql_true c = (c = Some True)"

text \<open>
  The errors PostgreSQL raises in the statements modelled, under their condition names:
  \<open>datatype_mismatch\<close> (42804), \<open>ambiguous_column\<close> (42702), \<open>undefined_function\<close> (42883, also
  for an operator that does not exist), \<open>invalid_function_definition\<close> (42P13),
  \<open>not_null_violation\<close> (23502), \<open>check_violation\<close> (23514) and \<open>unique_violation\<close> (23505).
\<close>

datatype sql_error =
    datatype_mismatch
  | ambiguous_column
  | undefined_function
  | invalid_function_definition
  | not_null_violation
  | check_violation
  | unique_violation

subsection \<open>Strings: \<open>ILIKE '%pat%'\<close>\<close>

definition lower_char :: "char \<Rightarrow> char" where
  "lower_char c =
     (let n = (of_char c :: nat) in if 65 \<le> n \<and> n \<le> 90 then char_of (n + 32) else c)"

fun starts_with :: "string \<Rightarrow> string \<Rightarrow> bool" where
  "starts_with [] s = True"
| "starts_with (p # ps) [] = False"
| "starts_with (p # ps) (c # cs) = (p = c \<and> starts_with ps cs)"

fun contains :: "string \<Rightarrow> string \<Rightarrow> bool" where
  "contains pat [] = (pat = [])"
| "contains pat (c # cs) = (starts_with pat (c # cs) \<or> contains pat cs)"

definition ilike_contains :: "string \<Rightarrow> string \<Rightarrow> bool" where
  "ilike_contains s pat = contains (map lower_char pat) (map lower_char s)"

section \<open>Call frequency management (migration 004)\<close>

text \<open>
  Table \<open>call_frequency_settings\<close>: one row per setting name. A field is \<open>None\<close> when
  the table has no row of that name.
\<close>

record frequency_settings =
  default_cooldown_hours :: "int option"
  no_pickup_cooldown_hours :: "int option"
  failed_connection_cooldown_hours :: "int option"
  customer_ended_cooldown_hours :: "int option"
  max_attempts_per_day :: "int option"
  max_total_attempts :: "int option"
  call_window_start :: "time_of_day option"
  call_window_end :: "time_of_day option"
  enabled_days :: "string list option"

text \<open>The rows the migration inserts.\<close>

definition default_frequency_settings :: frequency_settings where
  "default_frequency_settings =
     \<lparr> default_cooldown_hours = Some 24,
       no_pickup_cooldown_hours = Some 72,
       failed_connection_cooldown_hours = Some 6,
       customer_ended_cooldown_hours = Some 168,
       max_attempts_per_day = Some 1,
       max_total_attempts = Some 5,
       call_window_start = Some (9 * 3600),
       call_window_end = Some (18 * 3600),
       enabled_days = Some [''monday'', ''tuesday'', ''wednesday'', ''thursday'', ''friday''] \<rparr>"

text \<open>Table \<open>call_attempts\<close>, \<open>UNIQUE(phone_number, call_date)\<close>.\<close>

record call_attempt =
  ca_phone_number :: string
  ca_call_date :: date
  ca_attempt_count :: int
  ca_last_attempt_at :: timestamptz
  ca_last_call_status :: "string option"
  ca_last_ended_reason :: "string option"
  ca_cooldown_until :: "timestamptz option"
  ca_created_at :: timestamptz
  ca_updated_at :: timestamptz

text \<open>Table \<open>phone_number_history\<close>, \<open>phone_number UNIQUE\<close>.\<close>

record history =
  h_phone_number :: string
  h_total_attempts :: int
  h_last_successful_call :: "timestamptz option"
  h_last_pickup_call :: "timestamptz option"
  h_permanent_dnc :: bool
  h_updated_at :: timestamptz

text \<open>Table \<open>vapi_calls\<close>: the columns the functions below read or write. \<open>call_id\<close> is
  \<open>UNIQUE NOT NULL\<close>; \<open>status\<close> is \<open>NOT NULL\<close> and checked to be one of six values.\<close>

record vapi_call =
  vc_call_id :: string
  vc_phone_number :: "string option"
  vc_status :: "string option"
  vc_ended_reason :: "string option"
  vc_started_at :: "timestamptz option"
  vc_ai_analysis_status :: string
  vc_asked_explicitly_to_not_call_again :: bool
  vc_follow_up_reason :: "string option"

record ledger =
  call_attempts :: "call_attempt list"
  phone_number_history :: "history list"
  call_frequency_settings :: frequency_settings
  vapi_calls :: "vapi_call list"
  max_daily_calls :: "int option"

text \<open>\<open>INSERT ... ON CONFLICT (key) DO UPDATE\<close>: the row with the key is updated, else the
  new row is appended.\<close>

fun upsert :: "('a \<Rightarrow> bool) \<Rightarrow> 'a \<Rightarrow> ('a \<Rightarrow> 'a) \<Rightarrow> 'a list \<Rightarrow> 'a list" where
  "upsert conflicts new upd [] = [new]"
| "upsert conflicts new upd (r # rs) =
     (if conflicts r then upd r # rs else r # upsert conflicts new upd rs)"

subsection \<open>\<open>record_call_attempt\<close>\<close>

text \<open>The \<open>CASE\<close> on \<open>p_ended_reason\<close>; a \<open>NULL\<close> reason satisfies no \<open>WHEN\<close>.\<close>

definition cooldown_hours_for :: "frequency_settings \<Rightarrow> string option \<Rightarrow> int option" where
  "cooldown_hours_for cfg p_ended_reason =
     (case p_ended_reason of
        None \<Rightarrow> default_cooldown_hours cfg
      | Some r \<Rightarrow>
          if r \<in> set [''customer-did-not-answer'', ''voicemail'', ''customer-busy'']
          then no_pickup_cooldown_hours cfg
          else if ilike_contains r ''twilio'' \<or> ilike_contains r ''connection''
                  \<or> ilike_contains r ''failed''
          then failed_connection_cooldown_hours cfg
          else if r = ''customer-ended-call'' then customer_ended_cooldown_hours cfg
          else default_cooldown_hours cfg)"

text \<open>\<open>p_call_time + (v_cooldown_hours || ' hours')::INTERVAL\<close>, \<open>NULL\<close> when the hours are.\<close>

definition cooldown_until_for :: "frequency_settings \<Rightarrow> string option \<Rightarrow> timestamptz \<Rightarrow> timestamptz option" where
  "cooldown_until_for cfg p_ended_reason p_call_time =
     map_option (add_hours p_call_time) (cooldown_hours_for cfg p_ended_reason)"

definition is_success_reason :: "string option \<Rightarrow> bool" where
  "is_success_reason r = (r = Some ''customer-ended-call'' \<or> r = Some ''assistant-ended-call'')"

text \<open>\<open>p_ended_reason NOT IN (...)\<close> is \<open>NULL\<close>, hence not true, for a \<open>NULL\<close> reason.\<close>

definition is_pickup_reason :: "string option \<Rightarrow> bool" where
  "is_pickup_reason r =
     (case r of None \<Rightarrow> False
      | Some x \<Rightarrow> x \<notin> set [''customer-did-not-answer'', ''voicemail'', ''customer-busy'',
                            ''twilio-failed-to-connect-call''])"

definition record_call_attempt ::
  "timestamptz \<Rightarrow> ledger \<Rightarrow> string \<Rightarrow> string option \<Rightarrow> string option \<Rightarrow> timestamptz \<Rightarrow> ledger" where
  "record_call_attempt now s p_phone_number p_call_status p_ended_reason p_call_time =
     (let v_cooldown_until =
            cooldown_until_for (call_frequency_settings s) p_ended_reason p_call_time;
          attempts =
            upsert
              (\<lambda>r. ca_phone_number r = p_phone_number \<and> ca_call_date r = date_of p_call_time)
              \<lparr> ca_phone_number = p_phone_number, ca_call_date = date_of p_call_time,
                ca_attempt_count = 1, ca_last_attempt_at = p_call_time,
                ca_last_call_status = p_call_status, ca_last_ended_reason = p_ended_reason,
                ca_cooldown_until = v_cooldown_until, ca_created_at = now, ca_updated_at = now \<rparr>
              (\<lambda>r. r\<lparr> ca_attempt_count := ca_attempt_count r + 1,
                      ca_last_attempt_at := p_call_time,
                      ca_last_call_status := p_call_status,
                      ca_last_ended_reason := p_ended_reason,
                      ca_cooldown_until := v_cooldown_until,
                      ca_updated_at := now \<rparr>)
              (call_attempts s);
          hist =
            upsert
              (\<lambda>h. h_phone_number h = p_phone_number)
              \<lparr> h_phone_number = p_phone_number, h_total_attempts = 1,
                h_last_successful_call = None, h_last_pickup_call = None,
                h_permanent_dnc = False, h_updated_at = now \<rparr>
              (\<lambda>h. h\<lparr> h_total_attempts := h_total_attempts h + 1,
                      h_last_successful_call :=
                        (if is_success_reason p_ended_reason then Some p_call_time
                         else h_last_successful_call h),
                      h_last_pickup_call :=
                        (if is_pickup_reason p_ended_reason then Some p_call_time
                         else h_last_pickup_call h),
                      h_updated_at := now \<rparr>)
              (phone_number_history s)
      in s\<lparr> call_attempts := attempts, phone_number_history := hist \<rparr>)"

text \<open>
  \<open>trigger_record_call_attempt\<close>, \<open>AFTER INSERT OR UPDATE ON vapi_calls FOR EACH ROW\<close>:
  the new row is recorded as an attempt when its phone number and status are not \<open>NULL\<close>.
\<close>

definition trigger_record_call_attempt :: "timestamptz \<Rightarrow> ledger \<Rightarrow> vapi_call \<Rightarrow> ledger" where
  "trigger_record_call_attempt now s new =
     (case (vc_phone_number new, vc_status new) of
        (Some p, Some st) \<Rightarrow>
          record_call_attempt now s p (Some st) (vc_ended_reason new)
            (case vc_started_at new of Some t \<Rightarrow> t | None \<Rightarrow> now)
      | _ \<Rightarrow> s)"

text \<open>\<open>CHECK (status IN ('queued', 'ringing', 'in-progress', 'forwarding', 'ended', 'failed'))\<close>.\<close>

definition vapi_call_statuses :: "string list" where
  "vapi_call_statuses =
     [''queued'', ''ringing'', ''in-progress'', ''forwarding'', ''ended'', ''failed'']"

text \<open>
  \<open>INSERT INTO vapi_calls\<close> of one row. The row is tested against \<open>NOT NULL\<close> and \<open>CHECK\<close> of
  \<open>status\<close>, then against the unique index of \<open>call_id\<close>; a row that fails is not stored and
  no trigger fires for it. For a row that is stored the trigger fires.
\<close>

definition insert_vapi_call :: "timestamptz \<Rightarrow> ledger \<Rightarrow> vapi_call \<Rightarrow> sql_error + ledger" where
  "insert_vapi_call now s new =
     (case vc_status new of
        None \<Rightarrow> Inl not_null_violation
      | Some st \<Rightarrow>
          if st \<notin> set vapi_call_statuses then Inl check_violation
          else if vc_call_id new \<in> set (map vc_call_id (vapi_calls s)) then Inl unique_violation
          else Inr (trigger_record_call_attempt now (s\<lparr> vapi_calls := vapi_calls s @ [new] \<rparr>) new))"

text \<open>\<open>UPDATE vapi_calls SET ... WHERE call_id = id\<close> of columns other than \<open>call_id\<close> and
  \<open>status\<close>; the trigger fires for each updated row.\<close>

definition update_vapi_calls ::
  "timestamptz \<Rightarrow> ledger \<Rightarrow> string \<Rightarrow> (vapi_call \<Rightarrow> vapi_call) \<Rightarrow> ledger" where
  "update_vapi_calls now s call_id upd =
     (let s' = s\<lparr> vapi_calls :=
                   map (\<lambda>c. if vc_call_id c = call_id then upd c else c) (vapi_calls s) \<rparr>
      in foldl (trigger_record_call_attempt now) s'
           (map upd (filter (\<lambda>c. vc_call_id c = call_id) (vapi_calls s))))"

text \<open>The lifetime counters of a phone number; a number without a history row has none.\<close>

definition history_of :: "ledger \<Rightarrow> string \<Rightarrow> history option" where
  "history_of s p = find (\<lambda>h. h_phone_number h = p) (phone_number_history s)"


definition total_attempts_of :: "ledger \<Rightarrow> string \<Rightarrow> int" where
  "total_attempts_of s p = (case history_of s p of None \<Rightarrow> 0 | Some h \<Rightarrow> h_total_attempts h)"


definition permanent_dnc_of :: "ledger \<Rightarrow> string \<Rightarrow> bool" where
  "permanent_dnc_of s p = (case history_of s p of None \<Rightarrow> False | Some h \<Rightarrow> h_permanent_dnc h)"

subsection \<open>\<open>should_call_phone_number\<close> as migration 004 defines it\<close>

text \<open>
  The function is declared to return rows of \<open>(can_call BOOLEAN, reason VARCHAR,
  cooldown_until TIMESTAMPTZ, attempts_today INTEGER, total_attempts INTEGER)\<close>.
\<close>

record eligibility =
  r_can_call :: bool
  r_reason :: string
  r_cooldown_until :: "timestamptz option"
  r_attempts_today :: "int option"
  r_total_attempts :: "int option"

text \<open>
  \<open>RETURN QUERY SELECT b, '...', ...\<close>, as every exit of the function is written. The string
  literal of the second column is of type \<open>text\<close>, the column \<open>reason\<close> of the result is
  \<open>VARCHAR\<close>, and \<open>RETURN QUERY\<close> takes only a query whose column types are those of the
  result: the statement raises \<open>datatype_mismatch\<close> when it runs, whatever the row is.
\<close>

definition return_query_004 :: "eligibility \<Rightarrow> sql_error + eligibility" where
  "return_query_004 row = Inl datatype_mismatch"

text \<open>The test of the enabled days: a missing setting makes it \<open>NULL\<close>, which does not take
  the branch.\<close>

definition outside_calling_days :: "frequency_settings \<Rightarrow> timestamptz \<Rightarrow> bool" where
  "outside_calling_days cfg t =
     sql_true (sql_not (map_option (\<lambda>ds. day_name (date_of t) \<in> set ds) (enabled_days cfg)))"

text \<open>
  The test of the calling window, \<open>current_time < call_window_start OR current_time >
  call_window_end\<close>. The function declares a variable \<open>current_time\<close> and assigns the time of
  day of \<open>p_current_time\<close> to it, but in the condition \<open>current_time\<close> is the SQL keyword
  \<open>CURRENT_TIME\<close>: the time of day on the server's clock when the transaction started. It
  is the argument \<open>tm\<close> here.
\<close>

definition outside_calling_hours :: "frequency_settings \<Rightarrow> time_of_day \<Rightarrow> bool" where
  "outside_calling_hours cfg tm =
     sql_true (sql_or (sql_lt (Some tm) (call_window_start cfg))
                      (sql_gt (Some tm) (call_window_end cfg)))"

text \<open>
  The function, given the server's time of day. After the three tests it runs
  \<open>SELECT COALESCE(attempt_count, 0), cooldown_until INTO ... FROM call_attempts\<close>, in which
  \<open>cooldown_until\<close> is a column of the table and an output column of the function: the
  statement raises \<open>ambiguous_column\<close>. The tests of the cooldown, the daily limit and the
  total limit that follow it in the source are never reached, so every call of the
  function ends in an error.
\<close>

definition should_call_phone_number ::
  "time_of_day \<Rightarrow> ledger \<Rightarrow> string \<Rightarrow> timestamptz \<Rightarrow> sql_error + eligibility" where
  "should_call_phone_number server_time s p_phone_number p_current_time =
     (let cfg = call_frequency_settings s;
          v_permanent_dnc = map_option h_permanent_dnc (history_of s p_phone_number)
      in if sql_true v_permanent_dnc then
           return_query_004
             \<lparr> r_can_call = False, r_reason = ''Permanent Do Not Call'', r_cooldown_until = None,
               r_attempts_today = Some 0, r_total_attempts = Some 0 \<rparr>
         else if outside_calling_days cfg p_current_time then
           return_query_004
             \<lparr> r_can_call = False, r_reason = ''Outside calling days'', r_cooldown_until = None,
               r_attempts_today = Some 0, r_total_attempts = Some 0 \<rparr>
         else if outside_calling_hours cfg server_time then
           return_query_004
             \<lparr> r_can_call = False, r_reason = ''Outside calling hours'', r_cooldown_until = None,
               r_attempts_today = Some 0, r_total_attempts = Some 0 \<rparr>
         else Inl ambiguous_column)"

subsection \<open>\<open>should_call_phone_number\<close> as migration 009 states it\<close>

text \<open>
  Migration 009 states the function anew with \<open>CREATE OR REPLACE FUNCTION\<close>, under the same
  name and argument types and with another row type: \<open>(should_call BOOLEAN, reason TEXT,
  attempts_today INTEGER, total_attempts INTEGER, last_attempt TIMESTAMPTZ, cooldown_until
  TIMESTAMPTZ)\<close>. PostgreSQL does not let \<open>CREATE OR REPLACE\<close> change the row type of an
  existing function: where the function of migration 004 exists the statement raises
  \<open>invalid_function_definition\<close> and the function stays as it was. The two statements, as
  functions of the definition that exists when they run:
\<close>

datatype eligibility_definition = migration_004 | migration_009

definition create_or_replace_004 ::
  "eligibility_definition option \<Rightarrow> sql_error + eligibility_definition" where
  "create_or_replace_004 existing =
     (case existing of
        Some migration_009 \<Rightarrow> Inl invalid_function_definition
      | _ \<Rightarrow> Inr migration_004)"

definition create_or_replace_009 ::
  "eligibility_definition option \<Rightarrow> sql_error + eligibility_definition" where
  "create_or_replace_009 existing =
     (case existing of
        Some migration_004 \<Rightarrow> Inl invalid_function_definition
      | _ \<Rightarrow> Inr migration_009)"

text \<open>
  The body of migration 009, as it runs in a database where its statement succeeded. Its
  reason is a text built from the numbers shown; the constructors keep the numbers and
  leave the formatting out. Its row is of the declared types, and none of the names in its
  queries is an output column.
\<close>

datatype reason_009 =
    DailyLimitReached int int
  | TotalLimitReached int int
  | OutsideCallingWindow "time_of_day option" "time_of_day option"
  | CooldownActive int "string option"
  | ReadyToCall

record eligibility_009 =
  e_should_call :: bool
  e_reason :: reason_009
  e_attempts_today :: int
  e_total_attempts :: int
  e_last_attempt :: "timestamptz option"
  e_cooldown_until :: "timestamptz option"

text \<open>\<open>MAX(created_at)\<close> over the selected rows, \<open>NULL\<close> when there is none.\<close>

definition max_created_at :: "call_attempt list \<Rightarrow> timestamptz option" where
  "max_created_at rows =
     (case rows of [] \<Rightarrow> None | r # rs \<Rightarrow> Some (fold (\<lambda>x m. max m (ca_created_at x)) rs (ca_created_at r)))"

text \<open>\<open>ORDER BY started_at DESC LIMIT 1\<close>: descending order puts \<open>NULL\<close> first; among equal
  keys the earlier row of the list is kept.\<close>

definition started_later :: "timestamptz option \<Rightarrow> timestamptz option \<Rightarrow> bool" where
  "started_later a b =
     (case (a, b) of (None, Some y) \<Rightarrow> True | (Some x, Some y) \<Rightarrow> y < x | _ \<Rightarrow> False)"

definition last_vapi_call :: "vapi_call list \<Rightarrow> vapi_call option" where
  "last_vapi_call rows =
     (case rows of [] \<Rightarrow> None
      | r # rs \<Rightarrow>
          Some (fold (\<lambda>x best. if started_later (vc_started_at x) (vc_started_at best) then x else best)
                  rs r))"

definition cooldown_hours_009 :: "frequency_settings \<Rightarrow> string option \<Rightarrow> int" where
  "cooldown_hours_009 cfg v_last_call_ended_reason =
     (let h = (if v_last_call_ended_reason = Some ''customer-did-not-answer''
               then no_pickup_cooldown_hours cfg
               else if v_last_call_ended_reason = Some ''twilio-failed-to-connect-call''
               then failed_connection_cooldown_hours cfg
               else if v_last_call_ended_reason = Some ''customer-ended-call''
               then customer_ended_cooldown_hours cfg
               else default_cooldown_hours cfg)
      in case h of None \<Rightarrow> 24 | Some v \<Rightarrow> v)"

text \<open>
  The function, given the server's time of day: its test of the calling window reads
  \<open>CURRENT_TIME\<close> like that of migration 004. \<open>enabled_days\<close> is loaded and not tested, and
  \<open>phone_number_history\<close> is not read.
\<close>

definition should_call_phone_number_009 ::
  "time_of_day \<Rightarrow> ledger \<Rightarrow> string \<Rightarrow> timestamptz \<Rightarrow> eligibility_009" where
  "should_call_phone_number_009 server_time s p_phone_number p_current_time =
     (let cfg = call_frequency_settings s;
          v_max_daily = (case max_daily_calls s of None \<Rightarrow> 100 | Some v \<Rightarrow> v);
          v_max_total = (case max_total_attempts cfg of None \<Rightarrow> 10 | Some v \<Rightarrow> v);
          current_date_start = date_of p_current_time * 86400;
          today_rows = filter (\<lambda>r. ca_phone_number r = p_phone_number
                                   \<and> current_date_start \<le> ca_created_at r) (call_attempts s);
          v_attempts_today = int (length today_rows);
          v_last_attempt = max_created_at today_rows;
          v_total_attempts =
            int (length (filter (\<lambda>r. ca_phone_number r = p_phone_number) (call_attempts s)));
          v_last_call_ended_reason =
            Option.bind
              (last_vapi_call (filter (\<lambda>c. vc_phone_number c = Some p_phone_number) (vapi_calls s)))
              vc_ended_reason
      in if v_max_daily \<le> v_attempts_today then
           \<lparr> e_should_call = False, e_reason = DailyLimitReached v_attempts_today v_max_daily,
             e_attempts_today = v_attempts_today, e_total_attempts = v_total_attempts,
             e_last_attempt = v_last_attempt, e_cooldown_until = None \<rparr>
         else if v_max_total \<le> v_total_attempts then
           \<lparr> e_should_call = False, e_reason = TotalLimitReached v_total_attempts v_max_total,
             e_attempts_today = v_attempts_today, e_total_attempts = v_total_attempts,
             e_last_attempt = v_last_attempt, e_cooldown_until = None \<rparr>
         else if outside_calling_hours cfg server_time then
           \<lparr> e_should_call = False,
             e_reason = OutsideCallingWindow (call_window_start cfg) (call_window_end cfg),
             e_attempts_today = v_attempts_today, e_total_attempts = v_total_attempts,
             e_last_attempt = v_last_attempt, e_cooldown_until = None \<rparr>
         else
           (case v_last_attempt of
              Some la \<Rightarrow>
                (let v_cooldown_hours = cooldown_hours_009 cfg v_last_call_ended_reason
                 in if p_current_time < add_hours la v_cooldown_hours then
                      \<lparr> e_should_call = False,
                        e_reason = CooldownActive v_cooldown_hours v_last_call_ended_reason,
                        e_attempts_today = v_attempts_today, e_total_attempts = v_total_attempts,
                        e_last_attempt = v_last_attempt,
                        e_cooldown_until = Some (add_hours la v_cooldown_hours) \<rparr>
                    else
                      \<lparr> e_should_call = True, e_reason = ReadyToCall,
                        e_attempts_today = v_attempts_today, e_total_attempts = v_total_attempts,
                        e_last_attempt = v_last_attempt, e_cooldown_until = None \<rparr>)
            | None \<Rightarrow>
                \<lparr> e_should_call = True, e_reason = ReadyToCall,
                  e_attempts_today = v_attempts_today, e_total_attempts = v_total_attempts,
                  e_last_attempt = v_last_attempt, e_cooldown_until = None \<rparr>))"

subsection \<open>Transcript analysis (\<open>process-call-analysis\<close>)\<close>

record call_analysis =
  asked_explicitly_to_NOT_call_again :: bool
  call_with_agent_booked :: bool
  follow_up_date :: "date option"

record follow_up =
  fu_type :: "string option"
  fu_reason :: string
  fu_urgency :: "string option"
  fu_date :: "date option"

definition calculateFollowUp :: "call_analysis \<Rightarrow> timestamptz \<Rightarrow> follow_up" where
  "calculateFollowUp analysis callEndedAt =
     (if call_with_agent_booked analysis then
        \<lparr> fu_type = Some ''agent_booking_followup'',
          fu_reason = ''Follow up on scheduled agent appointment'',
          fu_urgency = Some ''high'', fu_date = None \<rparr>
      else if asked_explicitly_to_NOT_call_again analysis then
        \<lparr> fu_type = None, fu_reason = ''Customer requested no further contact'',
          fu_urgency = None, fu_date = None \<rparr>
      else case follow_up_date analysis of
        Some d \<Rightarrow>
          \<lparr> fu_type = Some ''mortgage_expiry'', fu_reason = ''Mortgage-based follow-up'',
            fu_urgency = Some ''medium'', fu_date = Some d \<rparr>
      | None \<Rightarrow>
          \<lparr> fu_type = Some ''failed_call_retry'',
            fu_reason = ''Standard retry for unsuccessful call'',
            fu_urgency = Some ''low'', fu_date = Some (date_of callEndedAt + 21) \<rparr>)"

text \<open>
  Step 4 of the analysis of one call: the \<open>updateData\<close> written to the call's row of
  \<open>vapi_calls\<close> (the columns modelled), on which the table's trigger then fires.
\<close>

definition store_call_analysis ::
  "timestamptz \<Rightarrow> ledger \<Rightarrow> string \<Rightarrow> timestamptz \<Rightarrow> call_analysis \<Rightarrow> ledger" where
  "store_call_analysis now s call_id callEndedAt aiAnalysis =
     (let followUpData = calculateFollowUp aiAnalysis callEndedAt
      in update_vapi_calls now s call_id
           (\<lambda>c. c\<lparr> vc_ai_analysis_status := ''completed'',
                   vc_asked_explicitly_to_not_call_again :=
                     asked_explicitly_to_NOT_call_again aiAnalysis,
                   vc_follow_up_reason := Some (fu_reason followUpData) \<rparr>))"

section \<open>Daily call queue (migrations 020 and 021, the preload and dispatch functions)\<close>

datatype queue_status = pending | sent_to_n8n | calling | completed | failed | skipped

text \<open>The \<open>contact_data\<close> snapshot (\<open>JSONB\<close>): the profile fields read back at dispatch. The
  rows of the SQL preload carry no \<open>phone\<close> key.\<close>

record contact_data =
  cd_phone :: "string option"
  cd_firstName :: string
  cd_lastName :: string
  cd_email :: string
  cd_tags :: "string list"

text \<open>Table \<open>daily_call_queue\<close>, \<open>id\<close> the primary key, \<open>UNIQUE(queue_date, contact_id)\<close>.\<close>

record queue_row =
  q_id :: nat
  q_queue_date :: date
  q_contact_id :: string
  q_phone_number :: string
  q_contact_data :: contact_data
  q_priority_score :: int
  q_status :: queue_status
  q_sent_to_n8n_at :: "timestamptz option"
  q_call_initiated_at :: "timestamptz option"
  q_skip_reason :: "string option"
  q_created_at :: timestamptz
  q_updated_at :: timestamptz

type_synonym queue = "queue_row list"

definition queue_key :: "queue_row \<Rightarrow> date \<times> string" where
  "queue_key r = (q_queue_date r, q_contact_id r)"

definition count_for_date :: "queue \<Rightarrow> date \<Rightarrow> nat" where
  "count_for_date q d = length (filter (\<lambda>r. q_queue_date r = d) q)"

text \<open>\<open>gen_random_uuid()\<close>: an identifier no row of the table has.\<close>

definition next_id :: "queue \<Rightarrow> nat" where
  "next_id q = fold (\<lambda>r m. max m (Suc (q_id r))) q 0"

text \<open>A contact to be queued, before the table gives it an identifier and timestamps.\<close>

record queue_contact =
  qc_contact_id :: string
  qc_phone_number :: string
  qc_contact_data :: contact_data
  qc_priority_score :: int

definition new_queue_row :: "timestamptz \<Rightarrow> date \<Rightarrow> nat \<Rightarrow> queue_contact \<Rightarrow> queue_row" where
  "new_queue_row now d i c =
     \<lparr> q_id = i, q_queue_date = d, q_contact_id = qc_contact_id c,
       q_phone_number = qc_phone_number c, q_contact_data = qc_contact_data c,
       q_priority_score = qc_priority_score c, q_status = pending,
       q_sent_to_n8n_at = None, q_call_initiated_at = None, q_skip_reason = None,
       q_created_at = now, q_updated_at = now \<rparr>"

fun new_queue_rows :: "timestamptz \<Rightarrow> date \<Rightarrow> nat \<Rightarrow> queue_contact list \<Rightarrow> queue_row list" where
  "new_queue_rows now d i [] = []"
| "new_queue_rows now d i (c # cs) = new_queue_row now d i c # new_queue_rows now d (Suc i) cs"

datatype queue_error = UniqueViolation | NegativeLimit

text \<open>A plain multi-row \<open>INSERT\<close>: one statement, so a row that repeats the key of a stored
  row or of another new row fails the whole insert and stores nothing.\<close>

definition insert_queue_rows :: "timestamptz \<Rightarrow> date \<Rightarrow> queue \<Rightarrow> queue_contact list \<Rightarrow> queue_error + queue" where
  "insert_queue_rows now d q cs =
     (let rows = new_queue_rows now d (next_id q) cs
      in if (\<exists>r \<in> set rows. queue_key r \<in> set (map queue_key q))
            \<or> \<not> distinct (map queue_key rows)
         then Inl UniqueViolation
         else Inr (q @ rows))"

text \<open>\<open>INSERT ... ON CONFLICT (queue_date, contact_id) DO NOTHING\<close>: a row whose key is
  stored already is skipped; the count of rows inserted is returned with the table.\<close>

fun insert_do_nothing :: "timestamptz \<Rightarrow> date \<Rightarrow> queue \<Rightarrow> queue_contact list \<Rightarrow> queue \<times> nat" where
  "insert_do_nothing now d q [] = (q, 0)"
| "insert_do_nothing now d q (c # cs) =
     (if (d, qc_contact_id c) \<in> set (map queue_key q) then insert_do_nothing now d q cs
      else (let (q', n) = insert_do_nothing now d (q @ [new_queue_row now d (next_id q) c]) cs
            in (q', Suc n)))"

subsection \<open>\<open>preload_daily_contacts\<close> (SQL, migration 020)\<close>

fun digit_char :: "nat \<Rightarrow> char" where
  "digit_char n = char_of (48 + n mod 10)"

fun decimal :: "nat \<Rightarrow> string" where
  "decimal n = (if n < 10 then [digit_char n] else decimal (n div 10) @ [digit_char n])"

declare decimal.simps [simp del]

text \<open>\<open>LPAD(s, n, '0')\<close>: padded on the left, or cut on the right when longer.\<close>

definition lpad0 :: "string \<Rightarrow> nat \<Rightarrow> string" where
  "lpad0 s n = (if length s \<le> n then replicate (n - length s) CHR ''0'' @ s else take n s)"

text \<open>The placeholder contacts of the function, one per element of
  \<open>generate_series(1, p_target_count)\<close>; \<open>last_called_at\<close> is \<open>NULL\<close>, so each scores 100.\<close>

definition mock_contact :: "nat \<Rightarrow> queue_contact" where
  "mock_contact k =
     \<lparr> qc_contact_id = ''contact_'' @ decimal k,
       qc_phone_number = ''+447'' @ lpad0 (decimal k) 9,
       qc_contact_data = \<lparr> cd_phone = None, cd_firstName = ''Test'', cd_lastName = ''User'',
                           cd_email = ''test@example.com'', cd_tags = [] \<rparr>,
       qc_priority_score = 100 \<rparr>"

text \<open>The \<open>NOT EXISTS\<close> test of the fourteen-day cooldown.\<close>

definition in_two_week_cooldown :: "call_attempt list \<Rightarrow> timestamptz \<Rightarrow> string \<Rightarrow> bool" where
  "in_two_week_cooldown attempts now phone =
     (\<exists>ca \<in> set attempts.
        ca_phone_number ca = phone
        \<and> ca_last_ended_reason ca \<in>
            Some ` set [''customer-ended-call'', ''voicemail'', ''assistant-ended-call'']
        \<and> now - 14 * 86400 < ca_last_attempt_at ca)"

definition expire_pending :: "timestamptz \<Rightarrow> date \<Rightarrow> queue \<Rightarrow> queue" where
  "expire_pending now p_queue_date q =
     map (\<lambda>r. if q_queue_date r < p_queue_date \<and> q_status r = pending
               then r\<lparr> q_status := skipped, q_skip_reason := Some ''Expired - new day started'',
                       q_updated_at := now \<rparr>
               else r) q"

datatype preload_message = ContactsAlreadyLoaded | LoadedContacts nat date

text \<open>
  All placeholder contacts score alike, so \<open>ORDER BY priority_score DESC, RANDOM()\<close> only
  permutes them and \<open>LIMIT p_target_count\<close> keeps them all; they are inserted here in the
  order of the series. A negative target makes the \<open>LIMIT\<close> of the insert fail, and the
  failure undoes the update before it. The result is the queue and what the call
  returns.
\<close>

definition preload_daily_contacts ::
  "timestamptz \<Rightarrow> call_attempt list \<Rightarrow> queue \<Rightarrow> int \<Rightarrow> date
     \<Rightarrow> queue \<times> (queue_error + nat \<times> preload_message)" where
  "preload_daily_contacts now attempts q p_target_count p_queue_date =
     (let q1 = expire_pending now p_queue_date q;
          v_loaded_count = count_for_date q1 p_queue_date
      in if 0 < v_loaded_count then (q1, Inr (v_loaded_count, ContactsAlreadyLoaded))
         else if p_target_count < 0 then (q, Inl NegativeLimit)
         else
           (let eligible_contacts =
                  filter (\<lambda>c. \<not> in_two_week_cooldown attempts now (qc_phone_number c))
                    (map mock_contact [1 ..< Suc (nat p_target_count)]);
                (q2, n) = insert_do_nothing now p_queue_date q1 eligible_contacts
            in (q2, Inr (n, LoadedContacts n p_queue_date))))"

subsection \<open>The daily preload handler (edge function)\<close>

text \<open>A contact as the CRM search returns it: the fields the handler reads.\<close>

record ghl_contact =
  gc_id :: string
  gc_phone :: "string option"
  gc_firstName :: "string option"
  gc_firstNameLowerCase :: "string option"
  gc_lastName :: "string option"
  gc_lastNameLowerCase :: "string option"
  gc_email :: "string option"
  gc_tags :: "string list option"
  gc_lastActivity :: "timestamptz option"
  gc_dateAdded :: "timestamptz option"

text \<open>\<open>a || b || ''\<close> on strings: the first that is neither missing nor empty.\<close>

definition js_or_string :: "string option \<Rightarrow> string option \<Rightarrow> string" where
  "js_or_string a b =
     (case a of Some x \<Rightarrow> (if x \<noteq> [] then x else (case b of Some y \<Rightarrow> y | None \<Rightarrow> []))
      | None \<Rightarrow> (case b of Some y \<Rightarrow> y | None \<Rightarrow> []))"

definition calculatePriorityScore :: "timestamptz \<Rightarrow> ghl_contact \<Rightarrow> int" where
  "calculatePriorityScore now contact =
     (let s1 = (50::int) +
            (case gc_lastActivity contact of None \<Rightarrow> 30
             | Some a \<Rightarrow> if a < now - 30 * 86400 then 30 else 0);
          s2 = s1 + (case gc_tags contact of None \<Rightarrow> 0
                     | Some ts \<Rightarrow> if ''hot lead'' \<in> set ts then 20 else 0);
          s3 = s2 + (case gc_dateAdded contact of None \<Rightarrow> 0
                     | Some d \<Rightarrow>
                         (let daysOld = (now - d) div 86400
                          in (if 30 < daysOld then 10 else 0) + (if 60 < daysOld then 10 else 0)))
      in min s3 100)"

definition phone_for_check :: "string \<Rightarrow> string" where
  "phone_for_check phone = (if starts_with ''0'' phone then ''+44'' @ drop 1 phone else phone)"

definition to_queue_contact :: "timestamptz \<Rightarrow> ghl_contact \<Rightarrow> string \<Rightarrow> queue_contact" where
  "to_queue_contact now contact phone =
     \<lparr> qc_contact_id = gc_id contact,
       qc_phone_number = phone_for_check phone,
       qc_contact_data =
         \<lparr> cd_phone = Some phone,
           cd_firstName = js_or_string (gc_firstNameLowerCase contact) (gc_firstName contact),
           cd_lastName = js_or_string (gc_lastNameLowerCase contact) (gc_lastName contact),
           cd_email = js_or_string (gc_email contact) None,
           cd_tags = (case gc_tags contact of Some ts \<Rightarrow> ts | None \<Rightarrow> []) \<rparr>,
       qc_priority_score = calculatePriorityScore now contact \<rparr>"

text \<open>
  The filter loop. \<open>can_call\<close> is the answer of \<open>should_call_phone_number_smart\<close>, a database
  function that none of the migrations modelled here defines; it is a parameter. The loop stops as soon
  as \<open>needed\<close> contacts are collected.
\<close>

fun collect_eligible ::
  "(string \<Rightarrow> bool) \<Rightarrow> timestamptz \<Rightarrow> nat \<Rightarrow> ghl_contact list \<Rightarrow> queue_contact list \<Rightarrow> queue_contact list" where
  "collect_eligible can_call now needed [] acc = acc"
| "collect_eligible can_call now needed (contact # rest) acc =
     (case gc_phone contact of
        None \<Rightarrow> collect_eligible can_call now needed rest acc
      | Some phone \<Rightarrow>
          if phone = [] \<or> length phone < 8 then collect_eligible can_call now needed rest acc
          else if can_call (phone_for_check phone) then
            (let acc' = acc @ [to_queue_contact now contact phone]
             in if needed \<le> length acc' then acc'
                else collect_eligible can_call now needed rest acc')
          else collect_eligible can_call now needed rest acc)"

datatype preload_response =
    AlreadyLoaded nat
  | NoContactsFound
  | Preloaded nat nat
  | PreloadError queue_error

definition daily_preload ::
  "(string \<Rightarrow> bool) \<Rightarrow> timestamptz \<Rightarrow> ghl_contact list \<Rightarrow> queue \<Rightarrow> preload_response \<times> queue" where
  "daily_preload can_call now ghlContacts q =
     (let today = date_of now;
          targetTotal = (100::nat);
          alreadyLoaded = count_for_date q today
      in if targetTotal \<le> alreadyLoaded then (AlreadyLoaded alreadyLoaded, q)
         else if ghlContacts = [] then (NoContactsFound, q)
         else
           (let needed = targetTotal - alreadyLoaded;
                eligibleContacts = collect_eligible can_call now needed ghlContacts []
            in if eligibleContacts = [] then (Preloaded 0 (count_for_date q today), q)
               else
                 (case insert_queue_rows now today q eligibleContacts of
                    Inl e \<Rightarrow> (PreloadError e, q)
                  | Inr q' \<Rightarrow>
                      (Preloaded (length eligibleContacts) (count_for_date q' today), q'))))"

text \<open>
  Two notions used to state what the handler does: the contacts the loop would collect
  if it never stopped, and the condition under which the insert of contacts with the
  given ids fails.
\<close>

fun eligible_all :: "(string \<Rightarrow> bool) \<Rightarrow> timestamptz \<Rightarrow> ghl_contact list \<Rightarrow> queue_contact list" where
  "eligible_all can_call now [] = []"
| "eligible_all can_call now (contact # rest) =
     (case gc_phone contact of
        None \<Rightarrow> eligible_all can_call now rest
      | Some phone \<Rightarrow>
          if phone = [] \<or> length phone < 8 then eligible_all can_call now rest
          else if can_call (phone_for_check phone)
          then to_queue_contact now contact phone # eligible_all can_call now rest
          else eligible_all can_call now rest)"

definition insert_conflict :: "date \<Rightarrow> queue \<Rightarrow> string list \<Rightarrow> bool" where
  "insert_conflict d q ids =
     ((\<exists>i \<in> set ids. (d, i) \<in> set (map queue_key q)) \<or> \<not> distinct ids)"

subsection \<open>\<open>get_next_call_batch\<close> (migration 021)\<close>

text \<open>
  One call, run alone. The rows of the date that are pending are ordered by priority
  descending, then creation time; the first \<open>p_batch_size\<close> are set to \<open>sent_to_n8n\<close> and
  returned as updated. A \<open>NULL\<close> limit keeps every row, a negative one is an error.
\<close>

definition claim_row :: "timestamptz \<Rightarrow> queue_row \<Rightarrow> queue_row" where
  "claim_row now r = r\<lparr> q_status := sent_to_n8n, q_sent_to_n8n_at := Some now, q_updated_at := now \<rparr>"

definition batch_candidates :: "queue \<Rightarrow> date \<Rightarrow> queue_row list" where
  "batch_candidates q p_queue_date =
     sort_key (\<lambda>r. (- q_priority_score r, q_created_at r))
       (filter (\<lambda>r. q_queue_date r = p_queue_date \<and> q_status r = pending) q)"

definition get_next_call_batch ::
  "timestamptz \<Rightarrow> queue \<Rightarrow> int option \<Rightarrow> date \<Rightarrow> queue_error + (queue \<times> queue_row list)" where
  "get_next_call_batch now q p_batch_size p_queue_date =
     (case p_batch_size of
        Some n \<Rightarrow>
          if n < 0 then Inl NegativeLimit
          else
            (let batch = take (nat n) (batch_candidates q p_queue_date);
                 q' = map (\<lambda>r. if q_id r \<in> set (map q_id batch) then claim_row now r else r) q
             in Inr (q', filter (\<lambda>r. q_id r \<in> set (map q_id batch)) q'))
      | None \<Rightarrow>
          (let batch = batch_candidates q p_queue_date;
               q' = map (\<lambda>r. if q_id r \<in> set (map q_id batch) then claim_row now r else r) q
           in Inr (q', filter (\<lambda>r. q_id r \<in> set (map q_id batch)) q')))"

section \<open>Schedule windows\<close>

text \<open>Table \<open>cron_schedules\<close>: the columns the two schedule checks read.\<close>

record cron_schedule =
  cs_name :: string
  cs_day_type :: string
  cs_start_hour :: int
  cs_start_minute :: int
  cs_end_hour :: int
  cs_end_minute :: int
  cs_interval_minutes :: int
  cs_is_active :: bool

subsection \<open>\<open>should_call_now\<close> (SQL, migration 010)\<close>

text \<open>The row the function is declared to return: the columns read by its callers.\<close>

record should_call_result =
  sc_should_call :: bool
  sc_current_schedule :: "cron_schedule option"

text \<open>
  The function first selects the \<open>timezone\<close> setting into its variable \<open>timezone_setting\<close>,
  declared \<open>TEXT\<close>, and then computes the current time from \<open>timezone_setting ->> 'value'\<close>.
  No operator \<open>->>\<close> takes a \<open>text\<close> on its left: the assignment raises \<open>undefined_function\<close>
  when it runs, whatever the setting is. The statements after it, among them the query over
  \<open>cron_schedules\<close> that orders the matching windows by day type (\<open>saturday\<close> and \<open>sunday\<close>,
  then \<open>weekday\<close>, then \<open>weekend\<close>), start hour and start minute and keeps the first, are
  never reached. The arguments are what the function would read: the setting and the
  table of schedules.
\<close>

definition should_call_now ::
  "string option \<Rightarrow> cron_schedule list \<Rightarrow> sql_error + should_call_result" where
  "should_call_now timezone_setting schedules = Inl undefined_function"

subsection \<open>The schedule check of the dispatch function\<close>

text \<open>The moment is given as the function reads it from the clock of the configured time
  zone: day of week (0 is Sunday, 6 is Saturday), hour and minute.\<close>

definition dayTypeMatch :: "cron_schedule \<Rightarrow> int \<Rightarrow> bool" where
  "dayTypeMatch s dayOfWeek =
     ((cs_day_type s = ''weekday'' \<and> 1 \<le> dayOfWeek \<and> dayOfWeek \<le> 5)
      \<or> (cs_day_type s = ''weekend'' \<and> (dayOfWeek = 0 \<or> dayOfWeek = 6))
      \<or> (cs_day_type s = ''saturday'' \<and> dayOfWeek = 6)
      \<or> (cs_day_type s = ''sunday'' \<and> dayOfWeek = 0))"

text \<open>The body of the loop. In JavaScript \<open>x % 0\<close> is \<open>NaN\<close>, which is not \<open>0\<close>.\<close>

definition loop_matches :: "cron_schedule \<Rightarrow> int \<Rightarrow> int \<Rightarrow> int \<Rightarrow> bool" where
  "loop_matches s dayOfWeek hour minute =
     (dayTypeMatch s dayOfWeek
      \<and> cs_start_hour s \<le> hour \<and> hour \<le> cs_end_hour s
      \<and> (let totalMinutesFromStart = (hour - cs_start_hour s) * 60 + (minute - cs_start_minute s)
         in 0 \<le> totalMinutesFromStart \<and> cs_interval_minutes s \<noteq> 0
            \<and> totalMinutesFromStart mod cs_interval_minutes s = 0))"

text \<open>The loop runs over the active schedules in the order the query returned them and
  stops at the first match.\<close>

definition matchingSchedule :: "cron_schedule list \<Rightarrow> int \<Rightarrow> int \<Rightarrow> int \<Rightarrow> cron_schedule option" where
  "matchingSchedule schedules dayOfWeek hour minute =
     find (\<lambda>s. loop_matches s dayOfWeek hour minute) (filter cs_is_active schedules)"

section \<open>The dispatch function\<close>

subsection \<open>Remaining daily capacity\<close>

text \<open>The \<open>max_daily_calls\<close> setting value: a bare number or an object with a \<open>value\<close>.\<close>

datatype setting_json = JNumber int | JObject "int option"

definition maxDailyCalls_of :: "setting_json option \<Rightarrow> int" where
  "maxDailyCalls_of settingsData =
     (case settingsData of
        None \<Rightarrow> 30
      | Some (JNumber n) \<Rightarrow> if n = 0 then 30 else n
      | Some (JObject v) \<Rightarrow> (case v of None \<Rightarrow> 30 | Some n \<Rightarrow> n))"

definition status_count :: "queue \<Rightarrow> date \<Rightarrow> queue_status \<Rightarrow> int" where
  "status_count q today st =
     int (length (filter (\<lambda>r. q_queue_date r = today \<and> q_status r = st) q))"

definition processingNow :: "queue \<Rightarrow> date \<Rightarrow> int" where
  "processingNow q today = status_count q today sent_to_n8n + status_count q today calling"

definition remainingCapacity :: "int \<Rightarrow> int \<Rightarrow> int \<Rightarrow> int" where
  "remainingCapacity maxDailyCalls outboundCompletedOrStarted processing =
     max 0 (maxDailyCalls - (outboundCompletedOrStarted + processing))"

text \<open>The requested batch size is \<open>parseInt\<close> of the query parameter: an integer, or \<open>NaN\<close>
  (\<open>None\<close>), which \<open>Math.min\<close> and \<open>Math.max\<close> hand on.\<close>

definition effectiveBatchSize :: "int option \<Rightarrow> int \<Rightarrow> int option" where
  "effectiveBatchSize batchSize remaining = map_option (\<lambda>b. max 0 (min b remaining)) batchSize"

datatype capacity_decision = NoRemainingCapacity | ZeroEffectiveBatch | Dequeue "int option"

definition capacity_gate ::
  "setting_json option \<Rightarrow> nat option \<Rightarrow> queue \<Rightarrow> date \<Rightarrow> int option \<Rightarrow> capacity_decision" where
  "capacity_gate settingsData outboundCount q today batchSize =
     (let maxDailyCalls = maxDailyCalls_of settingsData;
          outboundCompletedOrStarted = (case outboundCount of None \<Rightarrow> 0 | Some n \<Rightarrow> int n);
          remaining = remainingCapacity maxDailyCalls outboundCompletedOrStarted (processingNow q today)
      in if remaining \<le> 0 then NoRemainingCapacity
         else if effectiveBatchSize batchSize remaining = Some 0 then ZeroEffectiveBatch
         else Dequeue (effectiveBatchSize batchSize remaining))"

subsection \<open>Stale rows, hand-off and requeue\<close>

definition reset_stale :: "timestamptz \<Rightarrow> date \<Rightarrow> queue \<Rightarrow> queue" where
  "reset_stale now today q =
     (let fifteenMinutesAgo = now - 15 * 60;
          reset = (\<lambda>r. r\<lparr> q_status := pending, q_updated_at := now,
                          q_skip_reason := Some ''stale_sent_to_n8n_auto_reset'' \<rparr>);
          q1 = map (\<lambda>r. if q_queue_date r = today \<and> q_status r = sent_to_n8n
                           \<and> (case q_sent_to_n8n_at r of Some t \<Rightarrow> t < fifteenMinutesAgo
                               | None \<Rightarrow> False)
                         then reset r else r) q
      in map (\<lambda>r. if q_queue_date r = today \<and> q_status r = sent_to_n8n
                      \<and> q_sent_to_n8n_at r = None \<and> q_updated_at r < fifteenMinutesAgo
                   then reset r else r) q1)"

text \<open>A dequeued row as the dispatch hands it on: \<open>phone\<close> is the \<open>phone\<close> of the row's
  \<open>contact_data\<close>, not its \<open>phone_number\<close> column.\<close>

record dispatch_contact =
  dc_id :: string
  dc_phone :: "string option"
  dc_firstName :: string
  dc_lastName :: string
  dc_email :: string
  dc_queue_id :: nat

definition to_dispatch_contact :: "queue_row \<Rightarrow> dispatch_contact" where
  "to_dispatch_contact qc =
     \<lparr> dc_id = q_contact_id qc,
       dc_phone = cd_phone (q_contact_data qc),
       dc_firstName = cd_firstName (q_contact_data qc),
       dc_lastName = cd_lastName (q_contact_data qc),
       dc_email = cd_email (q_contact_data qc),
       dc_queue_id = q_id qc \<rparr>"

text \<open>\<open>String(c.phone)\<close>.\<close>

definition js_String :: "string option \<Rightarrow> string" where
  "js_String v = (case v of Some x \<Rightarrow> x | None \<Rightarrow> ''undefined'')"

text \<open>The answer of the notification sink: a response with its status and body, or a
  failed request.\<close>

datatype webhook_result = HttpResponse int string | FetchFailed string

datatype dispatch_error =
    WebhookFailed int string
  | NetworkFailure string
  | SettingsFetchFailed
  | SchedulesFetchFailed
  | QueueFetchError queue_error

definition requeue_after_failure :: "timestamptz \<Rightarrow> string list \<Rightarrow> queue \<Rightarrow> queue" where
  "requeue_after_failure now phoneNumbers q =
     (if phoneNumbers = [] then q
      else map (\<lambda>r. if q_queue_date r = date_of now \<and> q_phone_number r \<in> set phoneNumbers
                        \<and> q_status r = sent_to_n8n
                     then r\<lparr> q_status := pending, q_updated_at := now,
                             q_skip_reason := Some ''n8n_webhook_failed'' \<rparr>
                     else r) q)"

definition mark_calling :: "timestamptz \<Rightarrow> string list \<Rightarrow> queue \<Rightarrow> queue" where
  "mark_calling now phoneNumbers q =
     (if phoneNumbers = [] then q
      else map (\<lambda>r. if q_queue_date r = date_of now \<and> q_phone_number r \<in> set phoneNumbers
                        \<and> q_status r = sent_to_n8n
                     then r\<lparr> q_status := calling, q_call_initiated_at := Some now,
                             q_updated_at := now \<rparr>
                     else r) q)"

datatype send_result = DryRun nat | ContactsSent nat int | Thrown dispatch_error

text \<open>
  \<open>sendContactsToN8N\<close>. A status outside 200..299 throws inside the \<open>try\<close>, as a failed
  request does; the \<open>catch\<close> requeues and throws the error again. The cache of sent
  contacts written on success is another table and is left out.
\<close>

definition sendContactsToN8N ::
  "timestamptz \<Rightarrow> webhook_result \<Rightarrow> bool \<Rightarrow> dispatch_contact list \<Rightarrow> queue \<Rightarrow> send_result \<times> queue" where
  "sendContactsToN8N now n8nResponse dryRun contacts q =
     (if dryRun then (DryRun (length contacts), q)
      else
        (let phoneNumbers = map (\<lambda>c. js_String (dc_phone c)) contacts
         in case n8nResponse of
              HttpResponse status errorText \<Rightarrow>
                if status < 200 \<or> 300 \<le> status
                then (Thrown (WebhookFailed status errorText),
                      requeue_after_failure now phoneNumbers q)
                else (ContactsSent (length contacts) status, mark_calling now phoneNumbers q)
            | FetchFailed msg \<Rightarrow>
                (Thrown (NetworkFailure msg), requeue_after_failure now phoneNumbers q)))"

subsection \<open>One dispatch cycle\<close>

datatype dispatch_response =
    CallingDisabled
  | OutsideScheduledHours
  | NoCapacity
  | ZeroBatch
  | NoPendingContacts
  | AllFilteredOut
  | DryRunOk nat
  | SentOk nat int
  | Error500 dispatch_error

record dispatch_request =
  rq_batchSize :: "int option"
  rq_dryRun :: bool
  rq_bypassCRON :: bool

record dispatch_env =
  env_now :: timestamptz
  env_dayOfWeek :: int
  env_hour :: int
  env_minute :: int
  env_settings_error :: bool
  env_calling_enabled :: "bool option"
  env_schedules_error :: bool
  env_schedules :: "cron_schedule list"
  env_max_daily_calls :: "setting_json option"
  env_outboundCount :: "nat option"
  env_webhook :: webhook_result

text \<open>
  \<open>env_settings_error\<close> and \<open>env_schedules_error\<close> say that the fetch of the settings, or
  of the schedules, failed; the function then throws, and its outer \<open>catch\<close> answers 500.
  \<open>recently_sent\<close> stands for \<open>filter_recently_sent_contacts\<close>, a database function that none of
  the migrations modelled here defines: given the contact ids it answers the ids to keep, or
  nothing when the call fails (then all are kept).
\<close>

definition dispatch_cycle ::
  "(string list \<Rightarrow> string list option) \<Rightarrow> dispatch_env \<Rightarrow> dispatch_request \<Rightarrow> queue
     \<Rightarrow> dispatch_response \<times> queue" where
  "dispatch_cycle recently_sent env rq q =
     (let callingEnabled = (env_calling_enabled env = Some True);
          todayStr = date_of (env_now env)
      in if env_settings_error env then (Error500 SettingsFetchFailed, q)
         else if \<not> callingEnabled \<and> \<not> rq_bypassCRON rq then (CallingDisabled, q)
         else if env_schedules_error env then (Error500 SchedulesFetchFailed, q)
         else if matchingSchedule (env_schedules env) (env_dayOfWeek env) (env_hour env)
                   (env_minute env) = None \<and> \<not> rq_bypassCRON rq
         then (OutsideScheduledHours, q)
         else
           (case capacity_gate (env_max_daily_calls env) (env_outboundCount env) q todayStr
                   (rq_batchSize rq) of
              NoRemainingCapacity \<Rightarrow> (NoCapacity, q)
            | ZeroEffectiveBatch \<Rightarrow> (ZeroBatch, q)
            | Dequeue effective \<Rightarrow>
                (let q1 = reset_stale (env_now env) todayStr q
                 in case get_next_call_batch (env_now env) q1 effective todayStr of
                      Inl e \<Rightarrow> (Error500 (QueueFetchError e), q1)
                    | Inr (q2, queueContacts) \<Rightarrow>
                        if queueContacts = [] then (NoPendingContacts, q2)
                        else
                          (let finalContacts = map to_dispatch_contact queueContacts;
                               contactIds = map dc_id finalContacts;
                               deduplicatedIds =
                                 (case recently_sent contactIds of Some ids \<Rightarrow> ids
                                  | None \<Rightarrow> contactIds);
                               deduplicatedContacts =
                                 take (case effective of Some n \<Rightarrow> nat n | None \<Rightarrow> 0)
                                   (filter (\<lambda>c. dc_id c \<in> set deduplicatedIds) finalContacts)
                           in if deduplicatedContacts = [] then (AllFilteredOut, q2)
                              else
                                (case sendContactsToN8N (env_now env) (env_webhook env)
                                        (rq_dryRun rq) deduplicatedContacts q2 of
                                   (DryRun n, q3) \<Rightarrow> (DryRunOk n, q3)
                                 | (ContactsSent n st, q3) \<Rightarrow> (SentOk n st, q3)
                                 | (Thrown e, q3) \<Rightarrow> (Error500 e, q3))))))"

section \<open>Example states\<close>

definition example_phone :: string where
  "example_phone = ''+447700900123''"

text \<open>An empty ledger with the settings of migration 004.\<close>

definition ledger0 :: ledger where
  "ledger0 =
     \<lparr> call_attempts = [], phone_number_history = [],
       call_frequency_settings = default_frequency_settings, vapi_calls = [],
       max_daily_calls = None \<rparr>"

text \<open>The same, with the example number flagged as permanently not to be called.\<close>

definition dnc_ledger :: ledger where
  "dnc_ledger =
     ledger0\<lparr> phone_number_history :=
       [\<lparr> h_phone_number = example_phone, h_total_attempts = 0, h_last_successful_call = None,
          h_last_pickup_call = None, h_permanent_dnc = True, h_updated_at = 0 \<rparr>] \<rparr>"

text \<open>A call to the example number that the customer ended, started on day 0 (a Thursday)
  at 10:00.\<close>

definition example_call :: vapi_call where
  "example_call =
     \<lparr> vc_call_id = ''call-1'', vc_phone_number = Some example_phone,
       vc_status = Some ''ended'', vc_ended_reason = Some ''customer-ended-call'',
       vc_started_at = Some 36000, vc_ai_analysis_status = ''pending'',
       vc_asked_explicitly_to_not_call_again = False, vc_follow_up_reason = None \<rparr>"

text \<open>The two ledgers after the row of that call is inserted at 10:00; the row passes the
  constraints of the table.\<close>

definition called_ledger :: ledger where
  "called_ledger =
     (case insert_vapi_call 36000 ledger0 example_call of Inr s \<Rightarrow> s | Inl e \<Rightarrow> ledger0)"

definition dnc_called_ledger :: ledger where
  "dnc_called_ledger =
     (case insert_vapi_call 36000 dnc_ledger example_call of Inr s \<Rightarrow> s | Inl e \<Rightarrow> dnc_ledger)"

definition dnc_request :: call_analysis where
  "dnc_request =
     \<lparr> asked_explicitly_to_NOT_call_again = True, call_with_agent_booked = False,
       follow_up_date = None \<rparr>"

text \<open>Queue rows for the example number.\<close>

definition example_row :: "nat \<Rightarrow> date \<Rightarrow> string \<Rightarrow> queue_status \<Rightarrow> queue_row" where
  "example_row i d cid st =
     \<lparr> q_id = i, q_queue_date = d, q_contact_id = cid, q_phone_number = example_phone,
       q_contact_data = \<lparr> cd_phone = Some example_phone, cd_firstName = ''Test'',
                          cd_lastName = ''User'', cd_email = [], cd_tags = [] \<rparr>,
       q_priority_score = 50, q_status = st, q_sent_to_n8n_at = None,
       q_call_initiated_at = None, q_skip_reason = None, q_created_at = 0, q_updated_at = 0 \<rparr>"

text \<open>Day 0 with three rows handed to the sink, one pending and one completed.\<close>

definition capacity_queue :: queue where
  "capacity_queue =
     [example_row 0 0 ''c0'' sent_to_n8n, example_row 1 0 ''c1'' sent_to_n8n,
      example_row 2 0 ''c2'' sent_to_n8n, example_row 3 0 ''c3'' pending,
      example_row 4 0 ''c4'' completed]"


text \<open>One row of day 0 that is still pending.\<close>

definition stale_queue :: queue where
  "stale_queue = [example_row 0 0 ''c0'' pending]"

text \<open>Schedule windows: weekdays 09:00 to 18:00 every 5 minutes, weekends 10:00 to 18:00
  every 10 minutes, Saturdays 10:00 to 11:00 every 5 minutes.\<close>

definition weekday_window :: cron_schedule where
  "weekday_window =
     \<lparr> cs_name = ''Weekdays'', cs_day_type = ''weekday'', cs_start_hour = 9, cs_start_minute = 0,
       cs_end_hour = 18, cs_end_minute = 0, cs_interval_minutes = 5, cs_is_active = True \<rparr>"

definition weekend_window :: cron_schedule where
  "weekend_window =
     \<lparr> cs_name = ''Weekend'', cs_day_type = ''weekend'', cs_start_hour = 10, cs_start_minute = 0,
       cs_end_hour = 18, cs_end_minute = 0, cs_interval_minutes = 10, cs_is_active = True \<rparr>"

definition saturday_window :: cron_schedule where
  "saturday_window =
     \<lparr> cs_name = ''Saturday'', cs_day_type = ''saturday'', cs_start_hour = 10, cs_start_minute = 0,
       cs_end_hour = 11, cs_end_minute = 0, cs_interval_minutes = 5, cs_is_active = True \<rparr>"

text \<open>A CRM contact whose phone number is written with the national trunk digit.\<close>

definition example_contact :: ghl_contact where
  "example_contact =
     \<lparr> gc_id = ''c1'', gc_phone = Some ''07700900123'', gc_firstName = Some ''Test'',
       gc_firstNameLowerCase = None, gc_lastName = Some ''User'', gc_lastNameLowerCase = None,
       gc_email = None, gc_tags = None, gc_lastActivity = None, gc_dateAdded = None \<rparr>"

text \<open>A dispatch on day 0 (a Thursday) at 10:00, calling enabled, no calls placed yet; the
  notification sink answers with status 500.\<close>

definition example_env :: dispatch_env where
  "example_env =
     \<lparr> env_now = 36000, env_dayOfWeek = 4, env_hour = 10, env_minute = 0,
       env_settings_error = False, env_calling_enabled = Some True,
       env_schedules_error = False, env_schedules = [weekday_window],
       env_max_daily_calls = None, env_outboundCount = Some 0,
       env_webhook = HttpResponse 500 ''Internal Server Error'' \<rparr>"

definition example_request :: dispatch_request where
  "example_request = \<lparr> rq_batchSize = Some 5, rq_dryRun = False, rq_bypassCRON = False \<rparr>"

text \<open>The same with a daily maximum of three calls.\<close>

definition exhausted_env :: dispatch_env where
  "exhausted_env = example_env\<lparr> env_max_daily_calls := Some (JNumber 3) \<rparr>"

text \<open>A day with a maximum of 30 calls of which 25 are placed, three rows handed to the
  sink a hundred seconds ago and four rows pending; the sink answers with status 200. One
  request asks for a batch of 10, the other has a \<open>batch_size\<close> that is not a number.\<close>

definition clamp_row :: "nat \<Rightarrow> string \<Rightarrow> queue_status \<Rightarrow> timestamptz option \<Rightarrow> queue_row" where
  "clamp_row i k st sent_at =
     \<lparr> q_id = i, q_queue_date = 0, q_contact_id = ''c'' @ k,
       q_phone_number = ''+44770090010'' @ k,
       q_contact_data = \<lparr> cd_phone = Some (''+44770090010'' @ k), cd_firstName = ''Test'',
                          cd_lastName = ''User'', cd_email = [], cd_tags = [] \<rparr>,
       q_priority_score = 50, q_status = st, q_sent_to_n8n_at = sent_at,
       q_call_initiated_at = None, q_skip_reason = None, q_created_at = 0, q_updated_at = 0 \<rparr>"

definition clamp_queue :: queue where
  "clamp_queue =
     [clamp_row 0 ''0'' sent_to_n8n (Some 35900), clamp_row 1 ''1'' sent_to_n8n (Some 35900),
      clamp_row 2 ''2'' sent_to_n8n (Some 35900), clamp_row 3 ''3'' pending None,
      clamp_row 4 ''4'' pending None, clamp_row 5 ''5'' pending None,
      clamp_row 6 ''6'' pending None]"

definition clamp_env :: dispatch_env where
  "clamp_env =
     example_env\<lparr> env_max_daily_calls := Some (JObject (Some 30)), env_outboundCount := Some 25,
                  env_webhook := HttpResponse 200 ''OK'' \<rparr>"

definition clamp_request :: dispatch_request where
  "clamp_request = \<lparr> rq_batchSize = Some 10, rq_dryRun = False, rq_bypassCRON = False \<rparr>"

definition nan_request :: dispatch_request where
  "nan_request = \<lparr> rq_batchSize = None, rq_dryRun = False, rq_bypassCRON = False \<rparr>"


text \<open>The queue after the preload handler has run on the empty queue with the example
  contact, every number being callable.\<close>

definition preloaded_queue :: queue where
  "preloaded_queue = snd (daily_preload (\<lambda>p. True) 36000 [example_contact] [])"

section \<open>Properties of the attempt ledger and the eligibility check\<close>

subsection \<open>Upserts\<close>

lemma find_upsert_hit:
  "P new \<Longrightarrow> (\<And>r. P r \<Longrightarrow> P (upd r)) \<Longrightarrow>
   find P (upsert P new upd xs) = Some (case find P xs of None \<Rightarrow> new | Some r \<Rightarrow> upd r)"
  by (induction xs) auto

lemma find_upsert_miss:
  "\<not> Q new \<Longrightarrow> (\<And>r. P r \<Longrightarrow> \<not> Q r \<and> \<not> Q (upd r)) \<Longrightarrow>
   find Q (upsert P new upd xs) = find Q xs"
  by (induction xs) auto

lemma history_of_record_same:
  "history_of (record_call_attempt now s p st r t) p =
     Some (case history_of s p of
             None \<Rightarrow> \<lparr> h_phone_number = p, h_total_attempts = 1,
                h_last_successful_call = None, h_last_pickup_call = None,
                h_permanent_dnc = False, h_updated_at = now \<rparr>
           | Some h \<Rightarrow> h\<lparr> h_total_attempts := h_total_attempts h + 1,
                      h_last_successful_call :=
                        (if is_success_reason r then Some t else h_last_successful_call h),
                      h_last_pickup_call :=
                        (if is_pickup_reason r then Some t else h_last_pickup_call h),
                      h_updated_at := now \<rparr>)"
  unfolding history_of_def record_call_attempt_def Let_def
  by (simp add: find_upsert_hit)

lemma history_of_record_other:
  "q \<noteq> p \<Longrightarrow> history_of (record_call_attempt now s p st r t) q = history_of s q"
  unfolding history_of_def record_call_attempt_def Let_def
  by (simp, rule find_upsert_miss) auto





lemma permanent_dnc_record:
  "permanent_dnc_of (record_call_attempt now s p st r t) q = permanent_dnc_of s q"
  by (cases "q = p")
     (simp_all add: permanent_dnc_of_def history_of_record_same history_of_record_other
        split: option.splits)

lemma settings_record [simp]:
  "call_frequency_settings (record_call_attempt now s p st r t) = call_frequency_settings s"
  by (simp add: record_call_attempt_def Let_def)

lemma vapi_calls_record [simp]:
  "vapi_calls (record_call_attempt now s p st r t) = vapi_calls s"
  by (simp add: record_call_attempt_def Let_def)

subsection \<open>The trigger\<close>


lemma total_attempts_vapi_calls_upd [simp]:
  "total_attempts_of (s\<lparr> vapi_calls := v \<rparr>) p = total_attempts_of s p"
  by (simp add: total_attempts_of_def history_of_def)

lemma permanent_dnc_vapi_calls_upd [simp]:
  "permanent_dnc_of (s\<lparr> vapi_calls := v \<rparr>) q = permanent_dnc_of s q"
  by (simp add: permanent_dnc_of_def history_of_def)

lemma permanent_dnc_trigger:
  "permanent_dnc_of (trigger_record_call_attempt now s new) q = permanent_dnc_of s q"
  by (simp add: trigger_record_call_attempt_def permanent_dnc_record split: option.splits)

lemma permanent_dnc_foldl_trigger:
  "permanent_dnc_of (foldl (trigger_record_call_attempt now) s rows) q = permanent_dnc_of s q"
  by (induction rows arbitrary: s) (simp_all add: permanent_dnc_trigger)

lemma vapi_calls_trigger [simp]:
  "vapi_calls (trigger_record_call_attempt now s new) = vapi_calls s"
  by (simp add: trigger_record_call_attempt_def split: option.splits)

lemma vapi_calls_foldl_trigger:
  "vapi_calls (foldl (trigger_record_call_attempt now) s rows) = vapi_calls s"
  by (induction rows arbitrary: s) simp_all


lemma ledger0_facts:
  "\<not> permanent_dnc_of ledger0 p"
  "call_frequency_settings ledger0 = default_frequency_settings"
  by (simp_all add: permanent_dnc_of_def history_of_def ledger0_def)

subsection \<open>Inserting a call\<close>


lemma insert_vapi_call_rejected:
  "vc_status new = Some st \<Longrightarrow>
   st \<notin> set vapi_call_statuses \<or> vc_call_id new \<in> set (map vc_call_id (vapi_calls s)) \<Longrightarrow>
   \<exists>e. insert_vapi_call now s new = Inl e"
  by (auto simp: insert_vapi_call_def)


lemma called_ledger_eq:
  "called_ledger =
     trigger_record_call_attempt 36000 (ledger0\<lparr> vapi_calls := [example_call] \<rparr>) example_call"
  by (simp add: called_ledger_def insert_vapi_call_def example_call_def vapi_call_statuses_def
        ledger0_def)

lemma dnc_called_ledger_eq:
  "dnc_called_ledger =
     trigger_record_call_attempt 36000 (dnc_ledger\<lparr> vapi_calls := [example_call] \<rparr>) example_call"
  by (simp add: dnc_called_ledger_def insert_vapi_call_def example_call_def
        vapi_call_statuses_def dnc_ledger_def ledger0_def)

subsection \<open>Recording is additive\<close>



subsection \<open>The eligibility function\<close>

lemma dnc_test_eq:
  "sql_true (map_option h_permanent_dnc (history_of s p)) = permanent_dnc_of s p"
  by (simp add: permanent_dnc_of_def sql_true_def split: option.splits)

text \<open>The function of migration 004 ends in an error on every call: at the first test
  that holds, where it is to return its row, or else at the query after the three tests.\<close>

lemma should_call_phone_number_raises:
  "should_call_phone_number server_time s p t =
     Inl (if permanent_dnc_of s p \<or> outside_calling_days (call_frequency_settings s) t
             \<or> outside_calling_hours (call_frequency_settings s) server_time
          then datatype_mismatch else ambiguous_column)"
  by (simp add: should_call_phone_number_def return_query_004_def Let_def dnc_test_eq)

lemma should_call_dnc:
  "permanent_dnc_of s p \<Longrightarrow> should_call_phone_number server_time s p t = Inl datatype_mismatch"
  by (simp add: should_call_phone_number_raises)

text \<open>The function of migration 009 never reads \<open>phone_number_history\<close>.\<close>

lemma should_call_009_ignores_history:
  "should_call_phone_number_009 server_time (s\<lparr> phone_number_history := hs \<rparr>) p t =
   should_call_phone_number_009 server_time s p t"
  by (simp add: should_call_phone_number_009_def)

text \<open>Its test of the window follows the server's clock, not the time asked about.\<close>

lemma should_call_009_outside_window:
  "should_call_phone_number_009 72000 dnc_ledger example_phone 36000
     = \<lparr> e_should_call = False,
         e_reason = OutsideCallingWindow (Some 32400) (Some 64800), e_attempts_today = 0,
         e_total_attempts = 0, e_last_attempt = None, e_cooldown_until = None \<rparr>"
  by (simp add: dnc_ledger_def ledger0_def should_call_phone_number_009_def Let_def
        default_frequency_settings_def max_created_at_def last_vapi_call_def
        outside_calling_hours_def sql_true_def sql_or_def sql_lt_def sql_gt_def)

text \<open>
  Claim C1. The eligibility function is to test permanent do-not-call first, then the
  enabled day, the time window, the cooldown, the daily cap and the total cap, and to
  answer a number whose history has \<open>permanent_dnc\<close> set with the reason of that flag. For the
  example number, flagged and without attempts, the function of migration 004 tests the
  flag first and then raises \<open>datatype_mismatch\<close> at the statement that is to return the
  row, whatever the time asked about and the server's clock are. The statement of
  migration 009 fails where that function exists; where it succeeds, its function answers
  for the same number, the server's clock at 10:00, that it is ready to call.
\<close>

theorem C1_permanent_dnc_never_reported:
  "permanent_dnc_of dnc_ledger example_phone
   \<and> should_call_phone_number server_time dnc_ledger example_phone p_current_time
       = Inl datatype_mismatch
   \<and> create_or_replace_004 None = Inr migration_004
   \<and> create_or_replace_009 (Some migration_004) = Inl invalid_function_definition
   \<and> should_call_phone_number_009 36000 dnc_ledger example_phone 36000
       = \<lparr> e_should_call = True, e_reason = ReadyToCall, e_attempts_today = 0,
           e_total_attempts = 0, e_last_attempt = None, e_cooldown_until = None \<rparr>"
proof -
  have d: "permanent_dnc_of dnc_ledger example_phone"
    by (simp add: permanent_dnc_of_def history_of_def dnc_ledger_def ledger0_def)
  have r: "should_call_phone_number_009 36000 dnc_ledger example_phone 36000
       = \<lparr> e_should_call = True, e_reason = ReadyToCall, e_attempts_today = 0,
           e_total_attempts = 0, e_last_attempt = None, e_cooldown_until = None \<rparr>"
    by (simp add: dnc_ledger_def ledger0_def should_call_phone_number_009_def Let_def
          default_frequency_settings_def max_created_at_def last_vapi_call_def
          outside_calling_hours_def sql_true_def sql_or_def sql_lt_def sql_gt_def)
  show ?thesis
    using d r by (simp add: should_call_dnc create_or_replace_004_def create_or_replace_009_def)
qed

subsection \<open>The cooldown after a call the customer ended\<close>







subsection \<open>Transcript analysis and the do-not-call flag\<close>

lemma vapi_calls_store_call_analysis:
  "vapi_calls (store_call_analysis now s call_id ended aiAnalysis) =
     map (\<lambda>c. if vc_call_id c = call_id
               then c\<lparr> vc_ai_analysis_status := ''completed'',
                       vc_asked_explicitly_to_not_call_again :=
                         asked_explicitly_to_NOT_call_again aiAnalysis,
                       vc_follow_up_reason := Some (fu_reason (calculateFollowUp aiAnalysis ended)) \<rparr>
               else c) (vapi_calls s)"
  by (simp add: store_call_analysis_def update_vapi_calls_def Let_def vapi_calls_foldl_trigger)

lemma permanent_dnc_store_call_analysis:
  "permanent_dnc_of (store_call_analysis now s call_id ended aiAnalysis) q = permanent_dnc_of s q"
  by (simp add: store_call_analysis_def update_vapi_calls_def Let_def permanent_dnc_foldl_trigger)

text \<open>
  Claim C9, as stated, fails: the analysis of the example call finds that the customer
  asked not to be called again; it is stored on the call's row, and the number's history
  has the flag unset afterwards.
\<close>

theorem C9_counterexample:
  "map vc_asked_explicitly_to_not_call_again
       (vapi_calls (store_call_analysis 40000 called_ledger ''call-1'' 36600 dnc_request)) = [True]
   \<and> \<not> permanent_dnc_of (store_call_analysis 40000 called_ledger ''call-1'' 36600 dnc_request)
          example_phone"
proof -
  have "\<not> permanent_dnc_of (store_call_analysis 40000 called_ledger ''call-1'' 36600 dnc_request)
          example_phone"
    by (simp add: store_call_analysis_def update_vapi_calls_def Let_def
          permanent_dnc_foldl_trigger called_ledger_eq
          permanent_dnc_trigger ledger0_facts)
  moreover have "map vc_asked_explicitly_to_not_call_again
       (vapi_calls (store_call_analysis 40000 called_ledger ''call-1'' 36600 dnc_request)) = [True]"
    by (simp add: store_call_analysis_def update_vapi_calls_def Let_def
          vapi_calls_foldl_trigger called_ledger_eq ledger0_def
          example_call_def dnc_request_def)
  ultimately show ?thesis by simp
qed

text \<open>
  Claim C9, amended. The analysis stores its finding that the customer asked not to be
  called again on the rows of the call in \<open>vapi_calls\<close>; neither this store, with the trigger
  it fires, nor \<open>record_call_attempt\<close> changes the do-not-call flag of any phone number: a
  flag that is set stays set, and this subsystem never sets one.
\<close>

theorem C9_analysis_leaves_permanent_dnc:
  "(\<forall>c \<in> set (vapi_calls (store_call_analysis now s call_id ended aiAnalysis)).
      vc_call_id c = call_id \<longrightarrow>
      vc_asked_explicitly_to_not_call_again c = asked_explicitly_to_NOT_call_again aiAnalysis)
   \<and> permanent_dnc_of (store_call_analysis now s call_id ended aiAnalysis) q = permanent_dnc_of s q
   \<and> permanent_dnc_of (record_call_attempt now s p st r t) q = permanent_dnc_of s q"
proof -
  have "vc_asked_explicitly_to_not_call_again c = asked_explicitly_to_NOT_call_again aiAnalysis"
    if "c \<in> set (vapi_calls (store_call_analysis now s call_id ended aiAnalysis))"
       "vc_call_id c = call_id" for c
  proof -
    from that(1) obtain c0 where c0: "c0 \<in> set (vapi_calls s)"
      "c = (if vc_call_id c0 = call_id
               then c0\<lparr> vc_ai_analysis_status := ''completed'',
                       vc_asked_explicitly_to_not_call_again :=
                         asked_explicitly_to_NOT_call_again aiAnalysis,
                       vc_follow_up_reason := Some (fu_reason (calculateFollowUp aiAnalysis ended)) \<rparr>
               else c0)"
      unfolding vapi_calls_store_call_analysis by auto
    show ?thesis
    proof (cases "vc_call_id c0 = call_id")
      case True
      then show ?thesis using c0(2) by simp
    next
      case False
      then show ?thesis using c0(2) that(2) by simp
    qed
  qed
  then show ?thesis
    by (simp add: permanent_dnc_store_call_analysis permanent_dnc_record)
qed

theorem C9_analysis_leaves_permanent_dnc_witness:
  "permanent_dnc_of dnc_called_ledger example_phone
   \<and> permanent_dnc_of (store_call_analysis 40000 dnc_called_ledger ''call-1'' 36600 dnc_request)
       example_phone
   \<and> map vc_asked_explicitly_to_not_call_again
       (vapi_calls (store_call_analysis 40000 dnc_called_ledger ''call-1'' 36600 dnc_request))
     = [True]"
proof -
  have d: "permanent_dnc_of dnc_called_ledger example_phone"
    by (simp add: dnc_called_ledger_eq permanent_dnc_trigger)
       (simp add: permanent_dnc_of_def history_of_def dnc_ledger_def ledger0_def)
  have v: "map vc_call_id
       (vapi_calls (store_call_analysis 40000 dnc_called_ledger ''call-1'' 36600 dnc_request))
     = [''call-1'']"
    by (simp add: store_call_analysis_def update_vapi_calls_def Let_def
          vapi_calls_foldl_trigger dnc_called_ledger_eq dnc_ledger_def
          ledger0_def example_call_def)
  obtain c where c: "vapi_calls (store_call_analysis 40000 dnc_called_ledger ''call-1'' 36600
                       dnc_request) = [c]" "vc_call_id c = ''call-1''"
    using v by (cases "vapi_calls (store_call_analysis 40000 dnc_called_ledger ''call-1'' 36600
                       dnc_request)") auto
  show ?thesis
    using C9_analysis_leaves_permanent_dnc
      [of 40000 dnc_called_ledger "''call-1''" 36600 dnc_request example_phone] d c
    by (simp add: dnc_request_def)
qed

section \<open>Properties of the daily queue\<close>

subsection \<open>The preload handler\<close>

lemma collect_eligible_acc:
  "length acc < needed \<Longrightarrow>
   collect_eligible cc now needed cs acc = acc @ take (needed - length acc) (eligible_all cc now cs)"
proof (induction cs arbitrary: acc)
  case Nil
  then show ?case by simp
next
  case (Cons c cs)
  show ?case
  proof (cases "gc_phone c")
    case None
    then show ?thesis using Cons by simp
  next
    case (Some ph)
    show ?thesis
    proof (cases "ph = [] \<or> length ph < 8 \<or> \<not> cc (phone_for_check ph)")
      case True
      then show ?thesis using Some Cons by auto
    next
      case False
      let ?acc' = "acc @ [to_queue_contact now c ph]"
      show ?thesis
      proof (cases "needed \<le> length ?acc'")
        case True
        with Cons.prems have "needed - length acc = 1" by simp
        then show ?thesis using Some False True by (simp add: Let_def)
      next
        case n: False
        then have lt: "length ?acc' < needed" by simp
        have "needed - length acc = Suc (needed - length ?acc')" using lt by simp
        then show ?thesis using Some False n Cons.IH [OF lt] by (simp add: Let_def)
      qed
    qed
  qed
qed

lemma collect_eligible_eq:
  "0 < needed \<Longrightarrow> collect_eligible cc now needed cs [] = take needed (eligible_all cc now cs)"
  using collect_eligible_acc [of "[]" needed cc now cs] by simp


lemma new_queue_rows_keys:
  "map queue_key (new_queue_rows now d i cs) = map (\<lambda>c. (d, qc_contact_id c)) cs"
  by (induction cs arbitrary: i) (simp_all add: queue_key_def new_queue_row_def)

lemma new_queue_rows_length [simp]: "length (new_queue_rows now d i cs) = length cs"
  by (induction cs arbitrary: i) simp_all

lemma new_queue_rows_fresh:
  "r \<in> set (new_queue_rows now d i cs) \<Longrightarrow> q_queue_date r = d \<and> q_status r = pending \<and> i \<le> q_id r"
proof (induction cs arbitrary: i)
  case Nil
  then show ?case by simp
next
  case (Cons c cs)
  show ?case
  proof (cases "r = new_queue_row now d i c")
    case True
    then show ?thesis by (simp add: new_queue_row_def)
  next
    case False
    then have "r \<in> set (new_queue_rows now d (Suc i) cs)" using Cons.prems by simp
    from Cons.IH [OF this] show ?thesis by simp
  qed
qed

lemma count_for_date_append [simp]:
  "count_for_date (q @ rows) d = count_for_date q d + count_for_date rows d"
  by (simp add: count_for_date_def)

lemma count_new_queue_rows [simp]:
  "count_for_date (new_queue_rows now d i cs) d = length cs"
  by (induction cs arbitrary: i) (simp_all add: count_for_date_def new_queue_row_def)

lemma distinct_pair_map: "distinct (map (\<lambda>c. (d, f c)) cs) = distinct (map f cs)"
  by (induction cs) auto

lemma insert_queue_rows_eq:
  "insert_queue_rows now d q cs =
     (if insert_conflict d q (map qc_contact_id cs) then Inl UniqueViolation
      else Inr (q @ new_queue_rows now d (next_id q) cs))"
proof -
  have k: "map queue_key (new_queue_rows now d (next_id q) cs) = map (\<lambda>c. (d, qc_contact_id c)) cs"
    by (rule new_queue_rows_keys)
  have s: "queue_key ` set (new_queue_rows now d (next_id q) cs) = (\<lambda>c. (d, qc_contact_id c)) ` set cs"
    using arg_cong [OF k, of set] by simp
  have "(\<exists>r \<in> set (new_queue_rows now d (next_id q) cs). queue_key r \<in> set (map queue_key q))
        = (\<exists>i \<in> set (map qc_contact_id cs). (d, i) \<in> set (map queue_key q))"
    using s by (auto simp: image_iff) (metis (no_types, lifting) imageI image_iff s)+
  then show ?thesis
    unfolding insert_queue_rows_def Let_def insert_conflict_def k distinct_pair_map
    by (simp add: distinct_pair_map [of d qc_contact_id cs, symmetric] del: set_map)
qed


text \<open>The handler, with the loop and the insert replaced by what they compute.\<close>

lemma daily_preload_eq:
  "daily_preload cc now cs q =
     (let d = date_of now; c0 = count_for_date q d;
          E = take (100 - c0) (eligible_all cc now cs)
      in if 100 \<le> c0 then (AlreadyLoaded c0, q)
         else if cs = [] then (NoContactsFound, q)
         else if E = [] then (Preloaded 0 c0, q)
         else if insert_conflict d q (map qc_contact_id E) then (PreloadError UniqueViolation, q)
         else (Preloaded (length E) (c0 + length E), q @ new_queue_rows now d (next_id q) E))"
  by (simp add: daily_preload_def Let_def collect_eligible_eq insert_queue_rows_eq)

lemma daily_preload_full:
  "100 \<le> count_for_date q (date_of now) \<Longrightarrow>
   daily_preload cc now cs q = (AlreadyLoaded (count_for_date q (date_of now)), q)"
  by (simp add: daily_preload_eq Let_def)

lemma daily_preload_appends:
  "\<exists>rows. snd (daily_preload cc now cs q) = q @ rows
      \<and> length rows \<le> 100 - count_for_date q (date_of now)
      \<and> (\<forall>r \<in> set rows. q_queue_date r = date_of now \<and> q_status r = pending)"
proof -
  let ?E = "take (100 - count_for_date q (date_of now)) (eligible_all cc now cs)"
  let ?rows = "new_queue_rows now (date_of now) (next_id q) ?E"
  have rows: "length ?rows \<le> 100 - count_for_date q (date_of now)"
    "\<forall>r \<in> set ?rows. q_queue_date r = date_of now \<and> q_status r = pending"
    using new_queue_rows_fresh by auto
  have "snd (daily_preload cc now cs q) = q @ [] \<or> snd (daily_preload cc now cs q) = q @ ?rows"
    by (simp add: daily_preload_eq Let_def del: length_take)
  then show ?thesis using rows by (elim disjE) (rule exI [of _ "[]"], simp, rule exI [of _ ?rows], simp)
qed



lemma daily_preload_keeps_earlier_rows:
  "filter (\<lambda>r. q_queue_date r < date_of now) (snd (daily_preload can_call now ghlContacts q))
   = filter (\<lambda>r. q_queue_date r < date_of now) q"
proof -
  from daily_preload_appends [of can_call now ghlContacts q] obtain rows where
    rows: "snd (daily_preload can_call now ghlContacts q) = q @ rows"
      "\<forall>r \<in> set rows. q_queue_date r = date_of now \<and> q_status r = pending" by blast
  have "filter (\<lambda>r. q_queue_date r < date_of now) rows = []" using rows(2) by (simp add: filter_empty_conv)
  then show ?thesis using rows(1) by simp
qed

lemma preloaded_queue_eq:
  "preloaded_queue =
     [\<lparr> q_id = 0, q_queue_date = 0, q_contact_id = ''c1'', q_phone_number = ''+447700900123'',
        q_contact_data = \<lparr> cd_phone = Some ''07700900123'', cd_firstName = ''Test'',
                          cd_lastName = ''User'', cd_email = [], cd_tags = [] \<rparr>,
        q_priority_score = 80, q_status = pending, q_sent_to_n8n_at = None,
        q_call_initiated_at = None, q_skip_reason = None, q_created_at = 36000,
        q_updated_at = 36000 \<rparr>]"
  by (simp add: preloaded_queue_def daily_preload_def count_for_date_def date_of_def Let_def
        example_contact_def phone_for_check_def to_queue_contact_def js_or_string_def
        calculatePriorityScore_def insert_queue_rows_def next_id_def new_queue_row_def)


subsection \<open>The SQL preload\<close>

lemma insert_do_nothing_appends:
  "insert_do_nothing now d q cs = (q', n) \<Longrightarrow>
   \<exists>rows. q' = q @ rows \<and> length rows = n \<and> n \<le> length cs
      \<and> (\<forall>r \<in> set rows. q_queue_date r = d \<and> q_status r = pending)"
proof (induction cs arbitrary: q q' n)
  case Nil
  then show ?case by simp
next
  case (Cons c cs)
  show ?case
  proof (cases "(d, qc_contact_id c) \<in> set (map queue_key q)")
    case True
    with Cons.prems have "insert_do_nothing now d q cs = (q', n)" by simp
    from Cons.IH [OF this] show ?thesis by auto
  next
    case False
    let ?r = "new_queue_row now d (next_id q) c"
    obtain q2 m where r: "insert_do_nothing now d (q @ [?r]) cs = (q2, m)"
      by (cases "insert_do_nothing now d (q @ [?r]) cs")
    with False Cons.prems have e: "q' = q2" "n = Suc m" by simp_all
    from Cons.IH [OF r] obtain rows where rows: "q2 = (q @ [?r]) @ rows" "length rows = m"
      "m \<le> length cs" "\<forall>r \<in> set rows. q_queue_date r = d \<and> q_status r = pending" by blast
    show ?thesis
      by (rule exI [of _ "?r # rows"]) (use e rows in \<open>simp add: new_queue_row_def\<close>)
  qed
qed

lemma expire_pending_append [simp]:
  "expire_pending now d (q @ rows) = expire_pending now d q @ expire_pending now d rows"
  by (simp add: expire_pending_def)

lemma expire_pending_idem [simp]:
  "expire_pending now' d (expire_pending now d q) = expire_pending now d q"
  by (simp add: expire_pending_def)


lemma expire_pending_count [simp]:
  "count_for_date (expire_pending now d q) d = count_for_date q d"
  by (induction q) (simp_all add: expire_pending_def count_for_date_def)

lemma expire_pending_none_left:
  "r \<in> set (expire_pending now d q) \<Longrightarrow> q_queue_date r < d \<Longrightarrow> q_status r \<noteq> pending"
  by (auto simp: expire_pending_def split: if_splits)

lemma preload_daily_contacts_returns:
  "0 \<le> n \<Longrightarrow> \<exists>res. snd (preload_daily_contacts now attempts q n d) = Inr res"
  by (simp add: preload_daily_contacts_def Let_def split: prod.splits)

lemma preload_daily_contacts_appends:
  assumes "snd (preload_daily_contacts now attempts q n d) = Inr res"
  shows "\<exists>rows. fst (preload_daily_contacts now attempts q n d) = expire_pending now d q @ rows
      \<and> (\<forall>r \<in> set rows. q_queue_date r = d \<and> q_status r = pending)
      \<and> length rows \<le> nat n - count_for_date q d"
proof (cases "0 < count_for_date q d")
  case True
  then show ?thesis by (simp add: preload_daily_contacts_def Let_def)
next
  case False
  then have n: "\<not> n < 0"
    using assms by (auto simp: preload_daily_contacts_def Let_def split: if_splits)
  let ?E = "filter (\<lambda>c. \<not> in_two_week_cooldown attempts now (qc_phone_number c))
              (map mock_contact [1 ..< Suc (nat n)])"
  obtain q2 k where r: "insert_do_nothing now d (expire_pending now d q) ?E = (q2, k)"
    by (cases "insert_do_nothing now d (expire_pending now d q) ?E")
  from insert_do_nothing_appends [OF r] obtain rows where
    rows: "q2 = expire_pending now d q @ rows" "length rows = k" "k \<le> length ?E"
      "\<forall>r \<in> set rows. q_queue_date r = d \<and> q_status r = pending" by blast
  have "length ?E \<le> nat n"
    by (rule order_trans [OF length_filter_le]) simp
  then have "length rows \<le> nat n - count_for_date q d" using rows(2,3) False by simp
  moreover have "fst (preload_daily_contacts now attempts q n d) = q2"
    using False n r by (simp add: preload_daily_contacts_def Let_def)
  ultimately show ?thesis using rows by auto
qed

lemma preload_daily_contacts_expires:
  "snd (preload_daily_contacts now attempts q n d) = Inr res \<Longrightarrow>
   r \<in> set (fst (preload_daily_contacts now attempts q n d)) \<Longrightarrow> q_queue_date r < d \<Longrightarrow>
   q_status r \<noteq> pending"
  using preload_daily_contacts_appends [of now attempts q n d res] expire_pending_none_left
  by fastforce


lemma expire_pending_keys [simp]:
  "map queue_key (expire_pending now d q) = map queue_key q"
  by (induction q) (simp_all add: expire_pending_def queue_key_def)
















subsection \<open>Dequeue\<close>

lemma batch_candidates_subset:
  "c \<in> set (batch_candidates q d) \<Longrightarrow> c \<in> set q \<and> q_queue_date c = d \<and> q_status c = pending"
  by (simp add: batch_candidates_def)

lemma get_next_call_batch_cases:
  assumes "get_next_call_batch now q n d = Inr (q', batch)"
  obtains B where "set B \<subseteq> set (batch_candidates q d)"
    "q' = map (\<lambda>r. if q_id r \<in> set (map q_id B) then claim_row now r else r) q"
    "batch = filter (\<lambda>r. q_id r \<in> set (map q_id B)) q'"
proof (cases n)
  case None
  with assms show ?thesis
    by (intro that [of "batch_candidates q d"]) (auto simp: get_next_call_batch_def Let_def)
next
  case (Some k)
  with assms have "\<not> k < 0" by (auto simp: get_next_call_batch_def split: if_splits)
  with assms Some show ?thesis
    by (intro that [of "take (nat k) (batch_candidates q d)"])
       (auto simp: get_next_call_batch_def Let_def dest: in_set_takeD)
qed

text \<open>A row the dequeue returns for a date is a row of that date that was pending, now
  claimed; rows of other dates are not touched.\<close>

lemma get_next_call_batch_returns:
  assumes dist: "distinct (map q_id q)"
    and run: "get_next_call_batch now q n d = Inr (q', batch)"
    and r: "r \<in> set batch"
  shows "q_queue_date r = d \<and> q_status r = sent_to_n8n
         \<and> (\<exists>r0 \<in> set q. q_status r0 = pending \<and> q_queue_date r0 = d \<and> r = claim_row now r0)"
proof -
  from run obtain B where B: "set B \<subseteq> set (batch_candidates q d)"
    "q' = map (\<lambda>r. if q_id r \<in> set (map q_id B) then claim_row now r else r) q"
    "batch = filter (\<lambda>r. q_id r \<in> set (map q_id B)) q'"
    by (rule get_next_call_batch_cases)
  from r B(3) have rq: "r \<in> set q'" and rid: "q_id r \<in> set (map q_id B)" by auto
  from rq B(2) obtain r0 where r0: "r0 \<in> set q"
    "r = (if q_id r0 \<in> set (map q_id B) then claim_row now r0 else r0)" by auto
  have id: "q_id r = q_id r0" using r0(2) by (simp add: claim_row_def split: if_splits)
  then have cl: "r = claim_row now r0" using r0(2) rid by simp
  from rid id obtain c where c: "c \<in> set B" "q_id c = q_id r0" by auto
  with B(1) have cq: "c \<in> set q" "q_queue_date c = d" "q_status c = pending"
    using batch_candidates_subset by blast+
  have "c = r0" using dist cq(1) r0(1) c(2) by (meson distinct_map inj_onD)
  then show ?thesis using cq r0(1) cl by (auto simp: claim_row_def)
qed

lemma get_next_call_batch_keeps_other_dates:
  assumes dist: "distinct (map q_id q)"
    and run: "get_next_call_batch now q n d = Inr (q', batch)"
  shows "filter (\<lambda>r. q_queue_date r \<noteq> d) q' = filter (\<lambda>r. q_queue_date r \<noteq> d) q"
proof -
  from run obtain B where B: "set B \<subseteq> set (batch_candidates q d)"
    "q' = map (\<lambda>r. if q_id r \<in> set (map q_id B) then claim_row now r else r) q"
    by (rule get_next_call_batch_cases)
  have "q_id r \<notin> set (map q_id B)" if "r \<in> set q" "q_queue_date r \<noteq> d" for r
  proof
    assume "q_id r \<in> set (map q_id B)"
    then obtain c where c: "c \<in> set B" "q_id c = q_id r" by auto
    with B(1) have "c \<in> set q" "q_queue_date c = d" using batch_candidates_subset by blast+
    moreover have "c = r" using dist \<open>c \<in> set q\<close> that(1) c(2) by (meson distinct_map inj_onD)
    ultimately show False using that(2) by simp
  qed
  then have "filter (\<lambda>r. q_queue_date r \<noteq> d) q' = filter (\<lambda>r. q_queue_date r \<noteq> d) q"
    unfolding B(2)
    by (induction q) (auto simp: claim_row_def)
  then show ?thesis .
qed

lemma get_next_call_batch_ids:
  assumes "get_next_call_batch now q n d = Inr (q', batch)"
  shows "map q_id q' = map q_id q" and "set batch \<subseteq> set q'"
proof -
  from assms obtain B where B0: "set B \<subseteq> set (batch_candidates q d)" and B:
    "q' = map (\<lambda>r. if q_id r \<in> set (map q_id B) then claim_row now r else r) q"
    "batch = filter (\<lambda>r. q_id r \<in> set (map q_id B)) q'"
    by (rule get_next_call_batch_cases)
  show "map q_id q' = map q_id q" unfolding B(1) by (induction q) (simp_all add: claim_row_def)
  show "set batch \<subseteq> set q'" unfolding B(2) by auto
qed

text \<open>Run one after the other, two dequeues of a date return rows with different ids.\<close>

lemma get_next_call_batch_twice_disjoint:
  assumes dist: "distinct (map q_id q)"
    and one: "get_next_call_batch now q n d = Inr (q1, b1)"
    and two: "get_next_call_batch now' q1 n' d = Inr (q2, b2)"
  shows "set (map q_id b1) \<inter> set (map q_id b2) = {}"
proof -
  have dist1: "distinct (map q_id q1)" using dist get_next_call_batch_ids(1) [OF one] by simp
  have False if r1: "r1 \<in> set b1" and r2: "r2 \<in> set b2" and eq: "q_id r1 = q_id r2" for r1 r2
  proof -
    from get_next_call_batch_returns [OF dist one r1] have s1: "q_status r1 = sent_to_n8n" by simp
    from get_next_call_batch_returns [OF dist1 two r2] obtain r0 where
      r0: "r0 \<in> set q1" "q_status r0 = pending" "r2 = claim_row now' r0" by blast
    have "r1 \<in> set q1" using r1 get_next_call_batch_ids(2) [OF one] by auto
    moreover have "q_id r1 = q_id r0" using eq r0(3) by (simp add: claim_row_def)
    ultimately have "r1 = r0" using dist1 r0(1) by (meson distinct_map inj_onD)
    then show False using s1 r0(2) by simp
  qed
  then show ?thesis by auto
qed

text \<open>
  Claim C6. The next preload run is to turn every entry that is pending and of an
  earlier date into \<open>skipped\<close>, and the dequeue never returns an entry of another date. The
  SQL function \<open>preload_daily_contacts\<close> does the former (\<open>preload_daily_contacts_expires\<close>) and
  \<open>get_next_call_batch\<close> the latter (\<open>get_next_call_batch_returns\<close>). The preload handler,
  which is what loads the queue from the CRM, does not: run on day 1 over a queue whose
  one row is pending and of day 0, it leaves that row pending, where the SQL function
  sets it to \<open>skipped\<close>.
\<close>

theorem C6_handler_leaves_expired_pending:
  "map q_status (filter (\<lambda>r. q_queue_date r < 1)
       (snd (daily_preload (\<lambda>p. True) 122400 [example_contact] stale_queue))) = [pending]
   \<and> map q_status (filter (\<lambda>r. q_queue_date r < 1)
       (fst (preload_daily_contacts 122400 [] stale_queue 100 1))) = [skipped]"
proof -
  have d: "date_of 122400 = 1" by (simp add: date_of_def)
  have a: "filter (\<lambda>r. q_queue_date r < 1)
       (snd (daily_preload (\<lambda>p. True) 122400 [example_contact] stale_queue))
     = filter (\<lambda>r. q_queue_date r < 1) stale_queue"
    using daily_preload_keeps_earlier_rows [of 122400 "\<lambda>p. True" "[example_contact]" stale_queue]
    by (simp add: d)
  obtain res where "snd (preload_daily_contacts 122400 [] stale_queue 100 1) = Inr res"
    using preload_daily_contacts_returns [of 100 122400 "[]" stale_queue 1] by auto
  from preload_daily_contacts_appends [OF this] obtain rows where
    rows: "fst (preload_daily_contacts 122400 [] stale_queue 100 1)
           = expire_pending 122400 1 stale_queue @ rows"
      "\<forall>r \<in> set rows. q_queue_date r = 1 \<and> q_status r = pending" by blast
  have "filter (\<lambda>r. q_queue_date r < 1) rows = []" using rows(2) by (simp add: filter_empty_conv)
  then have b: "filter (\<lambda>r. q_queue_date r < 1) (fst (preload_daily_contacts 122400 [] stale_queue 100 1))
     = filter (\<lambda>r. q_queue_date r < 1) (expire_pending 122400 1 stale_queue)"
    using rows(1) by simp
  show ?thesis
    unfolding a b by (simp add: stale_queue_def example_row_def expire_pending_def)
qed

section \<open>Properties of the dispatch\<close>

subsection \<open>Capacity\<close>

lemma capacity_gate_eq:
  "capacity_gate settingsData outboundCount q today (Some b) =
     (if maxDailyCalls_of settingsData
           - ((case outboundCount of None \<Rightarrow> 0 | Some n \<Rightarrow> int n)
              + (status_count q today sent_to_n8n + status_count q today calling)) \<le> 0
      then NoRemainingCapacity
      else if b \<le> 0 then ZeroEffectiveBatch
      else Dequeue (Some (min b
             (maxDailyCalls_of settingsData
               - ((case outboundCount of None \<Rightarrow> 0 | Some n \<Rightarrow> int n)
                  + (status_count q today sent_to_n8n + status_count q today calling))))))"
  by (auto simp: capacity_gate_def Let_def remainingCapacity_def effectiveBatchSize_def
        processingNow_def max_def min_def)

text \<open>A batch size that is not a number passes the clamp as it is.\<close>

lemma capacity_gate_nan:
  "capacity_gate settingsData outboundCount q today None =
     (if maxDailyCalls_of settingsData
           - ((case outboundCount of None \<Rightarrow> 0 | Some n \<Rightarrow> int n)
              + (status_count q today sent_to_n8n + status_count q today calling)) \<le> 0
      then NoRemainingCapacity
      else Dequeue None)"
  by (auto simp: capacity_gate_def Let_def remainingCapacity_def effectiveBatchSize_def
        processingNow_def max_def)

text \<open>Without capacity the cycle stops and leaves the queue as it is.\<close>

lemma dispatch_cycle_no_capacity:
  assumes "\<not> env_settings_error env" "\<not> env_schedules_error env"
    "env_calling_enabled env = Some True \<or> rq_bypassCRON rq"
    "matchingSchedule (env_schedules env) (env_dayOfWeek env) (env_hour env)
       (env_minute env) \<noteq> None \<or> rq_bypassCRON rq"
    "capacity_gate (env_max_daily_calls env) (env_outboundCount env) q
       (date_of (env_now env)) (rq_batchSize rq) = NoRemainingCapacity"
  shows "dispatch_cycle recently_sent env rq q = (NoCapacity, q)"
  using assms by (auto simp: dispatch_cycle_def Let_def)

lemma schedule_open: "matchingSchedule [weekday_window] 4 10 0 = Some weekday_window"
  by (simp add: matchingSchedule_def loop_matches_def dayTypeMatch_def weekday_window_def)

lemma clamp_gate:
  "capacity_gate (Some (JObject (Some 30))) (Some 25) clamp_queue 0 (Some 10) = Dequeue (Some 2)"
  "capacity_gate (Some (JObject (Some 30))) (Some 25) clamp_queue 0 None = Dequeue None"
  by (simp_all add: capacity_gate_def Let_def remainingCapacity_def effectiveBatchSize_def
        processingNow_def maxDailyCalls_of_def status_count_def clamp_queue_def clamp_row_def)

lemma clamp_reset: "reset_stale 36000 0 clamp_queue = clamp_queue"
  by (simp add: reset_stale_def Let_def clamp_queue_def clamp_row_def)

lemma clamp_candidates:
  "batch_candidates clamp_queue 0 =
     [clamp_row 3 ''3'' pending None, clamp_row 4 ''4'' pending None,
      clamp_row 5 ''5'' pending None, clamp_row 6 ''6'' pending None]"
  by (simp add: batch_candidates_def clamp_queue_def clamp_row_def)

lemma clamp_cycle:
  "fst (dispatch_cycle (\<lambda>ids. Some ids) clamp_env clamp_request clamp_queue) = SentOk 2 200"
  "map q_status (snd (dispatch_cycle (\<lambda>ids. Some ids) clamp_env clamp_request clamp_queue))
     = [sent_to_n8n, sent_to_n8n, sent_to_n8n, calling, calling, pending, pending]"
  by (simp_all add: dispatch_cycle_def clamp_env_def example_env_def clamp_request_def
        schedule_open clamp_gate date_of_def Let_def clamp_reset
        get_next_call_batch_def clamp_candidates)
     (simp_all add: clamp_queue_def clamp_row_def claim_row_def
        to_dispatch_contact_def sendContactsToN8N_def js_String_def mark_calling_def date_of_def)

lemma nan_cycle:
  "fst (dispatch_cycle (\<lambda>ids. Some ids) clamp_env nan_request clamp_queue) = AllFilteredOut"
  "map q_status (snd (dispatch_cycle (\<lambda>ids. Some ids) clamp_env nan_request clamp_queue))
     = [sent_to_n8n, sent_to_n8n, sent_to_n8n, sent_to_n8n, sent_to_n8n, sent_to_n8n, sent_to_n8n]"
  by (simp_all add: dispatch_cycle_def clamp_env_def example_env_def nan_request_def
        schedule_open clamp_gate date_of_def Let_def clamp_reset
        get_next_call_batch_def clamp_candidates)
     (simp_all add: clamp_queue_def clamp_row_def claim_row_def
        to_dispatch_contact_def)

lemma exhausted_cycle:
  "dispatch_cycle (\<lambda>ids. Some ids) exhausted_env example_request capacity_queue
     = (NoCapacity, capacity_queue)"
proof (rule dispatch_cycle_no_capacity)
  show "capacity_gate (env_max_daily_calls exhausted_env) (env_outboundCount exhausted_env)
        capacity_queue (date_of (env_now exhausted_env)) (rq_batchSize example_request)
      = NoRemainingCapacity"
    by (simp add: exhausted_env_def example_env_def example_request_def capacity_gate_eq
          maxDailyCalls_of_def status_count_def capacity_queue_def example_row_def date_of_def)
qed (simp_all add: exhausted_env_def example_env_def schedule_open)

text \<open>
  One cycle with a numeric batch size takes at most as many rows of the day out of
  \<open>pending\<close> as the smaller of the batch size and the remaining capacity: the stale reset,
  the requeue after a failed hand-off and the mark as \<open>calling\<close> take none out, and the
  dequeue takes no more than its limit.
\<close>

lemma pending_map_mono:
  assumes "\<And>r. q_queue_date r = d \<Longrightarrow> q_status r = pending \<Longrightarrow>
               q_queue_date (f r) = d \<and> q_status (f r) = pending"
  shows "status_count q d pending \<le> status_count (map f q) d pending"
  using assms by (induction q) (auto simp: status_count_def)

lemma pending_reset_stale:
  "status_count q d pending \<le> status_count (reset_stale now d q) d pending"
proof -
  let ?reset = "\<lambda>r. r\<lparr> q_status := pending, q_updated_at := now,
                          q_skip_reason := Some ''stale_sent_to_n8n_auto_reset'' \<rparr>"
  let ?f1 = "\<lambda>r. if q_queue_date r = d \<and> q_status r = sent_to_n8n
                           \<and> (case q_sent_to_n8n_at r of Some t \<Rightarrow> t < now - 15 * 60
                               | None \<Rightarrow> False)
                         then ?reset r else r"
  let ?f2 = "\<lambda>r. if q_queue_date r = d \<and> q_status r = sent_to_n8n
                      \<and> q_sent_to_n8n_at r = None \<and> q_updated_at r < now - 15 * 60
                   then ?reset r else r"
  have "status_count q d pending \<le> status_count (map ?f1 q) d pending"
    by (rule pending_map_mono) simp
  also have "\<dots> \<le> status_count (map ?f2 (map ?f1 q)) d pending"
    by (rule pending_map_mono) simp
  finally show ?thesis unfolding reset_stale_def Let_def .
qed

lemma ids_reset_stale [simp]: "map q_id (reset_stale now d q) = map q_id q"
  by (simp add: reset_stale_def Let_def o_def)

lemma pending_requeue:
  "status_count q (date_of now) pending
     \<le> status_count (requeue_after_failure now phones q) (date_of now) pending"
  unfolding requeue_after_failure_def
  by (cases "phones = []") (auto intro!: pending_map_mono)

lemma pending_mark_calling:
  "status_count q (date_of now) pending
     \<le> status_count (mark_calling now phones q) (date_of now) pending"
  unfolding mark_calling_def
  by (cases "phones = []") (auto intro!: pending_map_mono)

lemma pending_send:
  "status_count q (date_of now) pending
     \<le> status_count (snd (sendContactsToN8N now wh dry cs q)) (date_of now) pending"
  by (auto simp: sendContactsToN8N_def Let_def pending_requeue pending_mark_calling
        split: webhook_result.splits)

lemma length_filter_ids:
  assumes "distinct (map f xs)"
  shows "length (filter (\<lambda>x. f x \<in> set ys) xs) \<le> length ys"
proof -
  have d: "distinct (filter (\<lambda>i. i \<in> set ys) (map f xs))" using assms by (rule distinct_filter)
  have "length (filter (\<lambda>x. f x \<in> set ys) xs) = length (filter (\<lambda>i. i \<in> set ys) (map f xs))"
    by (simp add: filter_map o_def)
  also have "\<dots> = card (set (filter (\<lambda>i. i \<in> set ys) (map f xs)))"
    by (rule distinct_card [OF d, symmetric])
  also have "\<dots> \<le> card (set ys)" by (intro card_mono) auto
  also have "\<dots> \<le> length ys" by (rule card_length)
  finally show ?thesis .
qed

lemma pending_claim:
  assumes "distinct (map q_id q)"
  shows "status_count q d pending - int (length B)
           \<le> status_count (map (\<lambda>r. if q_id r \<in> set (map q_id B) then claim_row now r else r) q)
                d pending"
proof -
  let ?S = "set (map q_id B)"
  let ?P = "\<lambda>r. q_queue_date r = d \<and> q_status r = pending"
  have a: "length (filter ?P (map (\<lambda>r. if q_id r \<in> ?S then claim_row now r else r) q))
           = length (filter (\<lambda>r. ?P r \<and> q_id r \<notin> ?S) q)"
    by (induction q) (auto simp: claim_row_def)
  have "length (filter ?P q) = length (filter (\<lambda>r. ?P r \<and> q_id r \<notin> ?S) q)
                               + length (filter (\<lambda>r. ?P r \<and> q_id r \<in> ?S) q)"
    by (induction q) auto
  also have "length (filter (\<lambda>r. ?P r \<and> q_id r \<in> ?S) q) \<le> length (filter (\<lambda>r. q_id r \<in> ?S) q)"
    by (induction q) auto
  also have "\<dots> \<le> length (map q_id B)" using assms by (rule length_filter_ids)
  finally have "length (filter ?P q) \<le> length (filter (\<lambda>r. ?P r \<and> q_id r \<notin> ?S) q) + length B"
    by simp
  then show ?thesis unfolding status_count_def a by simp
qed

lemma pending_get_next_call_batch:
  assumes "distinct (map q_id q)" "get_next_call_batch now q (Some n) d = Inr (q', batch)"
  shows "status_count q d pending - n \<le> status_count q' d pending"
proof -
  from assms(2) have n: "0 \<le> n"
    and q': "q' = map (\<lambda>r. if q_id r \<in> set (map q_id (take (nat n) (batch_candidates q d)))
                            then claim_row now r else r) q"
    by (auto simp: get_next_call_batch_def Let_def split: if_splits)
  have "int (length (take (nat n) (batch_candidates q d))) \<le> n" using n by simp
  then show ?thesis
    using pending_claim [OF assms(1), of d "take (nat n) (batch_candidates q d)" now]
    unfolding q' by linarith
qed


lemma snd_send_case:
  "snd (case X of (DryRun n, q3) \<Rightarrow> (DryRunOk n, q3)
              | (ContactsSent n st, q3) \<Rightarrow> (SentOk n st, q3)
              | (Thrown e, q3) \<Rightarrow> (Error500 e, q3)) = snd X"
  by (cases X; cases "fst X") auto

lemma dispatch_cycle_clamped:
  assumes dist: "distinct (map q_id q)" and b: "rq_batchSize rq = Some b"
  shows "status_count q (date_of (env_now env)) pending
           - max 0 (min b (maxDailyCalls_of (env_max_daily_calls env)
                            - ((case env_outboundCount env of None \<Rightarrow> 0 | Some n \<Rightarrow> int n)
                               + processingNow q (date_of (env_now env)))))
         \<le> status_count (snd (dispatch_cycle recently_sent env rq q)) (date_of (env_now env)) pending"
proof -
  let ?d = "date_of (env_now env)"
  let ?now = "env_now env"
  let ?cap = "maxDailyCalls_of (env_max_daily_calls env)
                - ((case env_outboundCount env of None \<Rightarrow> 0 | Some n \<Rightarrow> int n)
                   + processingNow q ?d)"
  let ?n = "min b ?cap"
  let ?q1 = "reset_stale ?now ?d q"
  let ?res = "snd (dispatch_cycle recently_sent env rq q)"
  have gate: "capacity_gate (env_max_daily_calls env) (env_outboundCount env) q ?d (Some b) =
     (if ?cap \<le> 0 then NoRemainingCapacity
      else if b \<le> 0 then ZeroEffectiveBatch else Dequeue (Some ?n))"
    by (simp add: capacity_gate_eq processingNow_def)
  show ?thesis
  proof (cases "?cap \<le> 0 \<or> b \<le> 0")
    case True
    then have "?res = q" by (auto simp: dispatch_cycle_def Let_def b gate)
    then show ?thesis by simp
  next
    case False
    then have n: "0 < ?n" by simp
    obtain q2 batch where g: "get_next_call_batch ?now ?q1 (Some ?n) ?d = Inr (q2, batch)"
      using n by (simp add: get_next_call_batch_def Let_def)
    have d1: "distinct (map q_id ?q1)" using dist by simp
    have p2: "status_count q ?d pending - ?n \<le> status_count q2 ?d pending"
      using pending_get_next_call_batch [OF d1 g] pending_reset_stale [of q ?d ?now] by linarith
    have forms: "?res = q \<or> ?res = q2
        \<or> (\<exists>cs. ?res = snd (sendContactsToN8N ?now (env_webhook env) (rq_dryRun rq) cs q2))"
      using False g by (auto simp: dispatch_cycle_def Let_def b gate snd_send_case)
    have "status_count q ?d pending - ?n \<le> status_count ?res ?d pending"
      using forms
    proof (elim disjE exE)
      assume "?res = q" then show ?thesis using n by simp
    next
      assume "?res = q2" then show ?thesis using p2 by simp
    next
      fix cs assume e: "?res = snd (sendContactsToN8N ?now (env_webhook env) (rq_dryRun rq) cs q2)"
      show ?thesis unfolding e
        using pending_send [of q2 ?now "env_webhook env" "rq_dryRun rq" cs] p2 by linarith
    qed
    then show ?thesis using n by simp
  qed
qed


text \<open>One cycle with a batch size that is not a number, and capacity left, takes every
  row of the day out of \<open>pending\<close> and sends none.\<close>

lemma pending_claim_all:
  "status_count (map (\<lambda>r. if q_id r \<in> set (map q_id (batch_candidates q d))
                             then claim_row now r else r) q) d pending = 0"
proof -
  have "\<not> (q_queue_date r' = d \<and> q_status r' = pending)"
    if "r' \<in> set (map (\<lambda>r. if q_id r \<in> set (map q_id (batch_candidates q d))
                             then claim_row now r else r) q)" for r'
  proof -
    from that obtain r where r: "r \<in> set q"
      "r' = (if q_id r \<in> set (map q_id (batch_candidates q d)) then claim_row now r else r)"
      by auto
    show ?thesis
    proof (cases "q_id r \<in> set (map q_id (batch_candidates q d))")
      case True
      then show ?thesis using r(2) by (simp add: claim_row_def)
    next
      case False
      then have "r \<notin> set (batch_candidates q d)" by auto
      then have "\<not> (q_queue_date r = d \<and> q_status r = pending)"
        using r(1) by (simp add: batch_candidates_def)
      then show ?thesis using r(2) False by simp
    qed
  qed
  then show ?thesis by (simp add: status_count_def filter_empty_conv)
qed

lemma dispatch_cycle_nan:
  assumes "\<not> env_settings_error env" "\<not> env_schedules_error env"
    "env_calling_enabled env = Some True \<or> rq_bypassCRON rq"
    "matchingSchedule (env_schedules env) (env_dayOfWeek env) (env_hour env)
       (env_minute env) \<noteq> None \<or> rq_bypassCRON rq"
    "rq_batchSize rq = None"
    "0 < maxDailyCalls_of (env_max_daily_calls env)
           - ((case env_outboundCount env of None \<Rightarrow> 0 | Some n \<Rightarrow> int n)
              + processingNow q (date_of (env_now env)))"
  shows "status_count (snd (dispatch_cycle recently_sent env rq q)) (date_of (env_now env)) pending = 0
         \<and> (fst (dispatch_cycle recently_sent env rq q) = NoPendingContacts
              \<or> fst (dispatch_cycle recently_sent env rq q) = AllFilteredOut)"
proof -
  let ?d = "date_of (env_now env)"
  let ?q1 = "reset_stale (env_now env) ?d q"
  let ?q2 = "map (\<lambda>r. if q_id r \<in> set (map q_id (batch_candidates ?q1 ?d))
                             then claim_row (env_now env) r else r) ?q1"
  have gate: "capacity_gate (env_max_daily_calls env) (env_outboundCount env) q ?d None = Dequeue None"
    using assms(6) by (simp add: capacity_gate_nan processingNow_def)
  have g: "get_next_call_batch (env_now env) ?q1 None ?d
             = Inr (?q2, filter (\<lambda>r. q_id r \<in> set (map q_id (batch_candidates ?q1 ?d))) ?q2)"
    by (simp add: get_next_call_batch_def Let_def)
  have "snd (dispatch_cycle recently_sent env rq q) = ?q2
        \<and> (fst (dispatch_cycle recently_sent env rq q) = NoPendingContacts
              \<or> fst (dispatch_cycle recently_sent env rq q) = AllFilteredOut)"
    using assms(1-5) by (auto simp: dispatch_cycle_def Let_def gate g)
  then show ?thesis using pending_claim_all [of ?q1 ?d "env_now env"] by simp
qed

text \<open>
  Claim C4. The remaining capacity is the daily maximum minus the outbound calls placed
  today plus the rows of today in \<open>sent_to_n8n\<close> or \<open>calling\<close>; when it is not positive the
  cycle is to stop with a response that changes nothing, and otherwise the requested
  batch size is to be cut down to it. With a maximum of 3 and three rows handed on, the
  cycle stops and the queue is as it was. With a maximum of 30, 25 calls placed, three
  rows \<open>sent_to_n8n\<close> and four pending, a requested batch of 10 becomes 2: two rows are
  dequeued and sent, two stay pending (in general \<open>dispatch_cycle_clamped\<close>). With the same
  state and a \<open>batch_size\<close> that is not a number, the size is not cut down: the cycle
  dequeues all four pending rows, which leaves seven rows \<open>sent_to_n8n\<close> where the capacity
  is 2, sends none of them and answers that all contacts were filtered out (in general
  \<open>dispatch_cycle_nan\<close>).
\<close>

theorem C4_capacity_clamp_misses_nan:
  "dispatch_cycle (\<lambda>ids. Some ids) exhausted_env example_request capacity_queue
     = (NoCapacity, capacity_queue)
   \<and> capacity_gate (Some (JObject (Some 30))) (Some 25) clamp_queue 0 (Some 10)
       = Dequeue (Some 2)
   \<and> fst (dispatch_cycle (\<lambda>ids. Some ids) clamp_env clamp_request clamp_queue) = SentOk 2 200
   \<and> map q_status (snd (dispatch_cycle (\<lambda>ids. Some ids) clamp_env clamp_request clamp_queue))
       = [sent_to_n8n, sent_to_n8n, sent_to_n8n, calling, calling, pending, pending]
   \<and> capacity_gate (Some (JObject (Some 30))) (Some 25) clamp_queue 0 None = Dequeue None
   \<and> fst (dispatch_cycle (\<lambda>ids. Some ids) clamp_env nan_request clamp_queue) = AllFilteredOut
   \<and> map q_status (snd (dispatch_cycle (\<lambda>ids. Some ids) clamp_env nan_request clamp_queue))
       = [sent_to_n8n, sent_to_n8n, sent_to_n8n, sent_to_n8n, sent_to_n8n, sent_to_n8n,
          sent_to_n8n]"
  by (simp add: exhausted_cycle clamp_gate clamp_cycle nan_cycle)

subsection \<open>Hand-off failure\<close>

text \<open>A failed hand-off is thrown on, after the requeue; the requeue reverts the rows of
  today in \<open>sent_to_n8n\<close> whose \<open>phone_number\<close> is among the phones of the contacts sent.\<close>

lemma sendContactsToN8N_failure:
  assumes "n8nResponse = FetchFailed msg
           \<or> (n8nResponse = HttpResponse status body \<and> (status < 200 \<or> 300 \<le> status))"
  shows "\<exists>e. sendContactsToN8N now n8nResponse False contacts q
           = (Thrown e, requeue_after_failure now (map (\<lambda>c. js_String (dc_phone c)) contacts) q)"
  using assms by (auto simp: sendContactsToN8N_def Let_def)

lemma requeue_after_failure_reverts:
  assumes "r \<in> set q" "q_queue_date r = date_of now" "q_phone_number r \<in> set phoneNumbers"
    "q_status r = sent_to_n8n"
  shows "r\<lparr> q_status := pending, q_updated_at := now, q_skip_reason := Some ''n8n_webhook_failed'' \<rparr>
           \<in> set (requeue_after_failure now phoneNumbers q)"
proof -
  have "phoneNumbers \<noteq> []" using assms(3) by auto
  then show ?thesis using assms by (auto simp: requeue_after_failure_def image_iff intro!: bexI [of _ r])
qed

lemma requeue_after_failure_none_left:
  "r \<in> set (requeue_after_failure now phoneNumbers q) \<Longrightarrow> q_queue_date r = date_of now \<Longrightarrow>
   q_phone_number r \<in> set phoneNumbers \<Longrightarrow> q_status r \<noteq> sent_to_n8n"
  by (auto simp: requeue_after_failure_def split: if_splits)

text \<open>
  Claim C8. After a failed hand-off every row of the batch is to be back in \<open>pending\<close>
  with a skip reason, and the failure reported. The failure is reported, but the rows are
  matched by comparing their \<open>phone_number\<close>, which the preload normalised, with the phone
  of their \<open>contact_data\<close>, which it did not: the row of a contact whose number starts with
  the trunk digit stays in \<open>sent_to_n8n\<close>, without skip reason.
\<close>

theorem C8_requeue_misses_normalised_phone:
  "fst (dispatch_cycle (\<lambda>ids. Some ids) example_env example_request preloaded_queue)
     = Error500 (WebhookFailed 500 ''Internal Server Error'')
   \<and> map (\<lambda>r. (q_phone_number r, cd_phone (q_contact_data r), q_status r, q_skip_reason r))
        (snd (dispatch_cycle (\<lambda>ids. Some ids) example_env example_request preloaded_queue))
     = [(''+447700900123'', Some ''07700900123'', sent_to_n8n, None)]"
  by (simp add: dispatch_cycle_def example_env_def example_request_def schedule_open
        capacity_gate_def maxDailyCalls_of_def remainingCapacity_def processingNow_def
        status_count_def effectiveBatchSize_def preloaded_queue_eq date_of_def Let_def
        reset_stale_def get_next_call_batch_def batch_candidates_def claim_row_def
        to_dispatch_contact_def sendContactsToN8N_def js_String_def requeue_after_failure_def)

section \<open>Properties of the schedule checks\<close>

text \<open>The loop of the dispatch function selects the first active schedule that matches, in
  the order fetched.\<close>

lemma matchingSchedule_first:
  "matchingSchedule (pre @ w # rest) dow h m = Some w"
  if "cs_is_active w" "loop_matches w dow h m"
     "\<forall>s \<in> set pre. cs_is_active s \<longrightarrow> \<not> loop_matches s dow h m"
  using that by (induction pre) (auto simp: matchingSchedule_def)

text \<open>
  Claim C7. Among the windows that match, the most day-specific is to be selected, then
  the earliest start. The loop of the dispatch function takes the first match in the
  order the schedules were fetched: with the weekend window fetched before the Saturday
  window, on a Saturday at 10:10, when both match, it selects the weekend window. At 10:05
  the weekend window, every 10 minutes, does not match, and the loop selects the Saturday
  window. The SQL function \<open>should_call_now\<close>, whose query is written to order the matches as
  the claim says, raises an error on every call.
\<close>

theorem C7_loop_takes_first_match:
  "matchingSchedule [weekend_window, saturday_window] 6 10 10 = Some weekend_window
   \<and> matchingSchedule [weekend_window, saturday_window] 6 10 5 = Some saturday_window
   \<and> should_call_now timezone_setting schedules = Inl undefined_function"
  by (simp add: matchingSchedule_def loop_matches_def dayTypeMatch_def weekend_window_def
        saturday_window_def should_call_now_def)

end
